theory Spec2Isabelle
  imports Complex_Main
begin

section \<open>Data model (types.ts)\<close>

text \<open>
  In the pricing engine numbers are the exact reals: the theorems about the engine are
  statements of exact arithmetic about its formulas, not about IEEE rounding. The deal
  aggregator is modelled with the rounding of IEEE doubles, since the totals it reports
  are sums that the code accumulates, and rounds, separately. A calendar date string
  \<^verbatim>\<open>YYYY-MM-DD\<close> is represented by the timestamp \<^verbatim>\<open>new Date(s).getTime()\<close>
  (milliseconds, an integer); an optional string that is missing or empty (both falsy in
  the source) is \<open>None\<close>. Optional numbers are \<open>real option\<close>; the destructuring defaults
  of the source are applied where the source applies them. Fields of the schema that the
  engine never reads (\<^verbatim>\<open>has_refixing\<close>, \<^verbatim>\<open>liquidation_preference\<close>,
  \<^verbatim>\<open>grant_date\<close>, \<^verbatim>\<open>vesting_start_date\<close>) are left out.

  A quotient of the model is the quotient of the code only where the divisor is not zero
  (the code then yields an infinity or a NaN, the model 0). The theorems that bound or
  order computed values therefore assume that the divisors of the engine are not zero.
\<close>

datatype SecurityType = RCPS | CB | CPS | ESO

datatype PositionType = HOLDER | ISSUER

datatype AntiDilutionType = NONE | FULL_RATCHET | WA_DOWN_ONLY

datatype ParticipationType = NON_PARTICIPATING | PARTICIPATING

type_synonym date = int

record ResetEvent =
  event_date :: date
  issue_price_new :: real
  issue_shares_new :: real
  shares_outstanding_before_reset :: "real option"

record SecuritySchema =
  security_type :: SecurityType
  position :: PositionType
  total_issue_price :: real
  num_issued_shares :: real
  share_price_current :: real
  valuation_date :: date
  maturity_date :: date
  coupon_rate :: real
  dividend_rate :: real
  repayment_premium_rate :: "real option"
  conversion_price :: real
  conversion_ratio :: "real option"
  anti_dilution_type :: AntiDilutionType
  refixing_floor_price :: "real option"
  reset_events :: "ResetEvent list"
  participation_type :: "ParticipationType option"
  participation_cap_multiple :: "real option"
  volatility :: real
  risk_free_rate :: real
  credit_spread :: real
  stepwise_risk_free_rates :: "real list option"
  stepwise_credit_spreads :: "real list option"
  has_call_option :: bool
  call_price :: "real option"
  call_start_date :: "date option"
  call_end_date :: "date option"
  has_put_option :: bool
  put_price :: "real option"
  put_start_date :: "date option"
  put_end_date :: "date option"
  num_options :: "real option"
  strike_price :: "real option"
  vesting_end_date :: "date option"
  employee_exit_rate :: "real option"
  early_exercise_multiple :: "real option"

text \<open>
  The fields \<^verbatim>\<open>t\<close>, \<^verbatim>\<open>i\<close>, \<^verbatim>\<open>date\<close>, \<^verbatim>\<open>rf_t\<close>, \<^verbatim>\<open>cs_t\<close> of a log row and
  \<^verbatim>\<open>dt\<close>, \<^verbatim>\<open>u\<close>, \<^verbatim>\<open>d\<close>, \<^verbatim>\<open>N\<close> and the two dates of the meta block carry a
  prefix here, since a record field is a global constant.
\<close>

record NodeLogRow =
  log_t :: nat
  log_i :: nat
  log_date :: date
  node_id :: string
  S_ti :: real
  D_ti :: real
  E_ti :: real
  V_ti :: real
  event_flag :: string
  q_up :: real
  log_rf_t :: real
  log_cs_t :: real
  conversion_price_eff :: "real option"

record Meta =
  meta_dt :: real
  meta_u :: real
  meta_d :: real
  meta_N :: nat
  meta_valuation_date :: date
  meta_maturity_date :: date
  used_curve_source :: "string option"
  eff_cp_final :: "real option"

record PricingResult =
  fair_value_total :: real
  fair_value_per_share :: "real option"
  fair_value_host :: real
  fair_value_deriv :: real
  fair_value_deriv_asset :: real
  fair_value_deriv_liab :: real
  eso_val_per_option :: "real option"
  tf_debt_component :: real
  tf_equity_component :: real
  node_logs :: "NodeLogRow list"
  meta :: Meta


text \<open>A destructuring default: the default stands in for a missing value only.\<close>

definition or_default :: "'a \<Rightarrow> 'a option \<Rightarrow> 'a" where
  "or_default dflt v = (case v of None \<Rightarrow> dflt | Some x \<Rightarrow> x)"

section \<open>Time grid (generateTimeGrid)\<close>

text \<open>
  A grid point. Its \<^verbatim>\<open>dateStr\<close> is the ISO day of its \<^verbatim>\<open>date\<close>; under the
  representation of date strings by timestamps the two fields hold the same number.
\<close>

record TimeStep =
  step :: nat
  date :: date
  dateStr :: date
  t_years :: real

definition MS_PER_DAY :: int where
  "MS_PER_DAY = 1000 * 60 * 60 * 24"

definition addDays :: "date \<Rightarrow> int \<Rightarrow> date" where
  "addDays dd days = dd + days * MS_PER_DAY"

definition getDateDiffYears :: "date \<Rightarrow> date \<Rightarrow> real" where
  "getDateDiffYears d1 d2 = real_of_int (d2 - d1) / real_of_int MS_PER_DAY / 365"

text \<open>The weekly \<^verbatim>\<open>while\<close> loop, with its state (current date, step counter, grid).\<close>

function grid_loop :: "date \<Rightarrow> date \<Rightarrow> date \<Rightarrow> nat \<Rightarrow> TimeStep list \<Rightarrow> TimeStep list \<times> nat" where
  "grid_loop valDate matDate currentDate stp grid =
     (if currentDate < matDate
      then grid_loop valDate matDate (addDays currentDate 7) (stp + 1)
             (grid @ [\<lparr>step = stp, date = currentDate, dateStr = currentDate,
                       t_years = getDateDiffYears valDate currentDate\<rparr>])
      else (grid, stp))"
  by pat_completeness auto
termination
  by (relation "measure (\<lambda>(valDate, matDate, currentDate, stp, grid). nat (matDate - currentDate))")
     (auto simp: addDays_def MS_PER_DAY_def)

declare grid_loop.simps [simp del]

definition generateTimeGrid :: "date \<Rightarrow> date \<Rightarrow> TimeStep list" where
  "generateTimeGrid valDate matDate =
     (if matDate \<le> valDate
      then [\<lparr>step = 0, date = valDate, dateStr = valDate, t_years = 0\<rparr>,
            \<lparr>step = 1, date = valDate, dateStr = valDate, t_years = 27 / 10000\<rparr>]
      else (case grid_loop valDate matDate valDate 0 [] of
              (grid, stp) \<Rightarrow>
                grid @ [\<lparr>step = stp, date = matDate, dateStr = matDate,
                          t_years = getDateDiffYears valDate matDate\<rparr>]))"

section \<open>Lattice\<close>

text \<open>\<^verbatim>\<open>S[t][i] = S0 * Math.pow(u, i) * Math.pow(d, t - i)\<close>, for \<open>i \<le> t\<close>.\<close>

definition share_price :: "real \<Rightarrow> real \<Rightarrow> real \<Rightarrow> nat \<Rightarrow> nat \<Rightarrow> real" where
  "share_price S0 u d t i = S0 * u ^ i * d ^ (t - i)"

text \<open>The up-probability of one step, \<^verbatim>\<open>(Math.exp(r_step * dt) - d) / (u - d)\<close>.\<close>

definition up_prob :: "real \<Rightarrow> real \<Rightarrow> real \<Rightarrow> real \<Rightarrow> real" where
  "up_prob r_step dt u d = (exp (r_step * dt) - d) / (u - d)"

text \<open>\<^verbatim>\<open>used_curve_source\<close> of the meta block.\<close>

definition curve_source :: "SecuritySchema \<Rightarrow> string" where
  "curve_source security =
     (case stepwise_risk_free_rates security of
        Some rs \<Rightarrow> ''Bootstrapped Curve'' | None \<Rightarrow> ''Flat Rate'')"

section \<open>ESO engine (calculateESO)\<close>

record ESONode =
  eso_E :: real
  eso_flag :: string

definition eso_terminal_node :: "SecuritySchema \<Rightarrow> real \<Rightarrow> real \<Rightarrow> nat \<Rightarrow> nat \<Rightarrow> ESONode" where
  "eso_terminal_node security u d N i =
     (let payoff = max (share_price (share_price_current security) u d N i
                          - or_default 0 (strike_price security)) 0
      in \<lparr>eso_E = payoff,
          eso_flag = (if payoff > 0 then ''MATURITY_EXERCISE'' else ''MATURITY_LAPSE'')\<rparr>)"

definition eso_terminal :: "SecuritySchema \<Rightarrow> real \<Rightarrow> real \<Rightarrow> nat \<Rightarrow> ESONode list" where
  "eso_terminal security u d N = map (eso_terminal_node security u d N) [0..<N + 1]"

text \<open>One node of the backward induction, from the row of step \<open>t + 1\<close>.\<close>

definition eso_node ::
  "SecuritySchema \<Rightarrow> TimeStep list \<Rightarrow> real list \<Rightarrow> real \<Rightarrow> real \<Rightarrow> real \<Rightarrow> nat \<Rightarrow> ESONode list \<Rightarrow> nat \<Rightarrow> ESONode" where
  "eso_node security time_grid rf_t dt u d t E_next_row i =
     (let strike = or_default 0 (strike_price security);
          vestingEnd = (case vesting_end_date security of
                          Some v \<Rightarrow> v | None \<Rightarrow> maturity_date security);
          survival_factor_step = exp (- or_default 0 (employee_exit_rate security) * dt);
          r_step = rf_t ! t;
          q = up_prob r_step dt u d;
          df = exp (- r_step * dt);
          stepDate = date (time_grid ! t);
          isVested = (stepDate \<ge> vestingEnd);
          S = share_price (share_price_current security) u d t i;
          E_next = q * eso_E (E_next_row ! (i + 1)) + (1 - q) * eso_E (E_next_row ! i);
          continuation = E_next * df;
          intrinsic = max (S - strike) 0;
          exercise_allowed = (S \<ge> or_default 1000 (early_exercise_multiple security) * strike)
      in if isVested
         then (if exercise_allowed \<and> intrinsic > continuation
               then \<lparr>eso_E = intrinsic * survival_factor_step, eso_flag = ''EXERCISE_SUBOPT''\<rparr>
               else \<lparr>eso_E = continuation * survival_factor_step, eso_flag = ''HOLD''\<rparr>)
         else \<lparr>eso_E = continuation * survival_factor_step, eso_flag = ''UNVESTED''\<rparr>)"

definition eso_step ::
  "SecuritySchema \<Rightarrow> TimeStep list \<Rightarrow> real list \<Rightarrow> real \<Rightarrow> real \<Rightarrow> real \<Rightarrow> nat \<Rightarrow> ESONode list \<Rightarrow> ESONode list" where
  "eso_step security time_grid rf_t dt u d t E_next_row =
     map (eso_node security time_grid rf_t dt u d t E_next_row) [0..<t + 1]"

text \<open>
  The backward loop \<^verbatim>\<open>for (t = N - 1; t >= 0; t--)\<close>: \<open>eso_back \<dots> N k\<close> is the row
  of step \<open>N - k\<close>, reached after \<open>k\<close> passes of the loop body.
\<close>

fun eso_back ::
  "SecuritySchema \<Rightarrow> TimeStep list \<Rightarrow> real list \<Rightarrow> real \<Rightarrow> real \<Rightarrow> real \<Rightarrow> nat \<Rightarrow> nat \<Rightarrow> ESONode list" where
  "eso_back security time_grid rf_t dt u d N 0 = eso_terminal security u d N"
| "eso_back security time_grid rf_t dt u d N (Suc k) =
     eso_step security time_grid rf_t dt u d (N - Suc k)
       (eso_back security time_grid rf_t dt u d N k)"

text \<open>The row \<^verbatim>\<open>E[t]\<close> when the loop has finished, for \<open>t \<le> N\<close>.\<close>

definition eso_row ::
  "SecuritySchema \<Rightarrow> TimeStep list \<Rightarrow> real list \<Rightarrow> real \<Rightarrow> real \<Rightarrow> real \<Rightarrow> nat \<Rightarrow> nat \<Rightarrow> ESONode list" where
  "eso_row security time_grid rf_t dt u d N t = eso_back security time_grid rf_t dt u d N (N - t)"

definition calculateESO ::
  "SecuritySchema \<Rightarrow> TimeStep list \<Rightarrow> real list \<Rightarrow> real \<Rightarrow> real \<Rightarrow> real \<Rightarrow> nat \<Rightarrow> PricingResult" where
  "calculateESO security time_grid rf_t dt u d N =
     (let V_per_option_long = eso_E (eso_row security time_grid rf_t dt u d N 0 ! 0);
          V_total_long = V_per_option_long * or_default 1 (num_options security);
          sgn = (if position security = ISSUER then - 1 else 1);
          V_total = V_total_long * sgn;
          V_per_opt = V_per_option_long * sgn
      in \<lparr>fair_value_total = V_total,
          fair_value_per_share = Some V_per_opt,
          fair_value_host = 0,
          fair_value_deriv = V_total,
          fair_value_deriv_asset = (if V_total > 0 then V_total else 0),
          fair_value_deriv_liab = (if V_total < 0 then - V_total else 0),
          eso_val_per_option = Some V_per_opt,
          tf_debt_component = 0,
          tf_equity_component = V_per_option_long,
          node_logs = [],
          meta = \<lparr>meta_dt = dt, meta_u = u, meta_d = d, meta_N = N,
                   meta_valuation_date = valuation_date security,
                   meta_maturity_date = maturity_date security,
                   used_curve_source = Some (curve_source security),
                   eff_cp_final = None\<rparr>\<rparr>)"

section \<open>TF engine (calculateTF)\<close>

subsection \<open>Calculation unit\<close>

definition isCB :: "SecuritySchema \<Rightarrow> bool" where
  "isCB security = (security_type security = CB)"

definition isPerShare :: "SecuritySchema \<Rightarrow> bool" where
  "isPerShare security = (\<not> isCB security)"

definition unit_face_value :: "SecuritySchema \<Rightarrow> real" where
  "unit_face_value security =
     (if isPerShare security
      then total_issue_price security / num_issued_shares security
      else total_issue_price security)"

definition unit_redemption_value :: "SecuritySchema \<Rightarrow> real" where
  "unit_redemption_value security =
     unit_face_value security * (1 + or_default 0 (repayment_premium_rate security))"

definition unit_periodic_cf :: "SecuritySchema \<Rightarrow> real \<Rightarrow> real" where
  "unit_periodic_cf security dt =
     (if isPerShare security
      then (unit_face_value security * (coupon_rate security + dividend_rate security)) * dt
      else (unit_face_value security * coupon_rate security) * dt)"

subsection \<open>Refixing schedule\<close>

text \<open>The body of the \<^verbatim>\<open>while\<close> loop for one reset event: the new \<^verbatim>\<open>current_cp\<close>.\<close>

definition apply_reset_event :: "AntiDilutionType \<Rightarrow> real option \<Rightarrow> real \<Rightarrow> ResetEvent \<Rightarrow> real" where
  "apply_reset_event adt floor_price current_cp evt =
     (if issue_price_new evt < current_cp
      then (let cp1 =
                  (if adt = FULL_RATCHET then issue_price_new evt
                   else if adt = WA_DOWN_ONLY
                   then (let SO = (case shares_outstanding_before_reset evt of
                                     Some so \<Rightarrow> if so \<noteq> 0 then so else 1000000
                                   | None \<Rightarrow> 1000000);
                             SP_new = issue_price_new evt;
                             SN_new = issue_shares_new evt;
                             CP_old = current_cp;
                             num = SO + (SP_new / CP_old) * SN_new;
                             den = SO + SN_new
                         in CP_old * (num / den))
                   else current_cp)
            in (case floor_price of
                  Some fl \<Rightarrow> if fl \<noteq> 0 \<and> cp1 < fl then fl else cp1
                | None \<Rightarrow> cp1))
      else current_cp)"

text \<open>
  The \<^verbatim>\<open>while\<close> loop at one step date: it consumes the events dated at or before
  the step date and returns the conversion price and the events still pending
  (the list from \<^verbatim>\<open>eventIdx\<close> on).
\<close>

fun consume_events ::
  "AntiDilutionType \<Rightarrow> real option \<Rightarrow> date \<Rightarrow> real \<Rightarrow> ResetEvent list \<Rightarrow> real \<times> ResetEvent list" where
  "consume_events adt floor_price stepDate current_cp [] = (current_cp, [])"
| "consume_events adt floor_price stepDate current_cp (evt # evts) =
     (if event_date evt \<le> stepDate
      then consume_events adt floor_price stepDate
             (apply_reset_event adt floor_price current_cp evt) evts
      else (current_cp, evt # evts))"

text \<open>The \<^verbatim>\<open>for\<close> loop over the steps, writing \<^verbatim>\<open>cp_at_step[t]\<close>.\<close>

fun refix_sweep ::
  "AntiDilutionType \<Rightarrow> real option \<Rightarrow> real \<Rightarrow> ResetEvent list \<Rightarrow> date list \<Rightarrow> real list" where
  "refix_sweep adt floor_price current_cp evts [] = []"
| "refix_sweep adt floor_price current_cp evts (stepDate # stepDates) =
     (case consume_events adt floor_price stepDate current_cp evts of
        (cp', evts') \<Rightarrow> cp' # refix_sweep adt floor_price cp' evts' stepDates)"

definition cp_at_step :: "SecuritySchema \<Rightarrow> TimeStep list \<Rightarrow> nat \<Rightarrow> real list" where
  "cp_at_step security time_grid N =
     (if anti_dilution_type security \<noteq> NONE \<and> reset_events security \<noteq> []
      then refix_sweep (anti_dilution_type security) (refixing_floor_price security)
             (conversion_price security)
             (sort_key event_date (reset_events security))
             (map (\<lambda>t. date (time_grid ! t)) [0..<N + 1])
      else replicate (N + 1) (conversion_price security))"

definition getEffectiveConversionRatio :: "SecuritySchema \<Rightarrow> real list \<Rightarrow> nat \<Rightarrow> real" where
  "getEffectiveConversionRatio security cps t =
     (case conversion_ratio security of
        Some override_ratio \<Rightarrow>
          if override_ratio \<noteq> 0 \<and> override_ratio > 0 \<and> anti_dilution_type security = NONE
          then override_ratio
          else unit_face_value security / (cps ! t)
      | None \<Rightarrow> unit_face_value security / (cps ! t))"

subsection \<open>Terminal condition\<close>

text \<open>
  A node of the value trees: \<^verbatim>\<open>D[t][i]\<close>, \<^verbatim>\<open>E[t][i]\<close> and \<^verbatim>\<open>Flags[t][i]\<close>. The
  array \<^verbatim>\<open>CP_Log\<close> of the source is written and never read, and is left out.
\<close>

record TFNode =
  D_leg :: real
  E_leg :: real
  tf_flag :: string

definition is_participating :: "SecuritySchema \<Rightarrow> bool" where
  "is_participating security =
     (or_default NON_PARTICIPATING (participation_type security) = PARTICIPATING)"

definition tf_terminal_node ::
  "SecuritySchema \<Rightarrow> real \<Rightarrow> real \<Rightarrow> real \<Rightarrow> real list \<Rightarrow> nat \<Rightarrow> nat \<Rightarrow> TFNode" where
  "tf_terminal_node security dt u d cps N i =
     (let S_T = share_price (share_price_current security) u d N i;
          ratio = getEffectiveConversionRatio security cps N;
          val_convert_base = S_T * ratio;
          redeem_val = unit_redemption_value security + unit_periodic_cf security dt;
          payoff_hold = redeem_val;
          payoff_conv =
            (if security_type security = RCPS \<and> is_participating security
             then (let double_dip0 = redeem_val + val_convert_base;
                       double_dip =
                         (case participation_cap_multiple security of
                            Some cap \<Rightarrow>
                              if cap \<noteq> 0 then min double_dip0 (unit_face_value security * cap)
                              else double_dip0
                          | None \<Rightarrow> double_dip0)
                   in max double_dip val_convert_base)
             else val_convert_base)
      in if payoff_conv > payoff_hold
         then \<lparr>D_leg = 0, E_leg = payoff_conv,
               tf_flag = (if is_participating security then ''MAT_PARTICIPATE'' else ''MAT_CONVERT'')\<rparr>
         else \<lparr>D_leg = payoff_hold, E_leg = 0, tf_flag = ''MAT_REDEEM''\<rparr>)"

definition tf_terminal ::
  "SecuritySchema \<Rightarrow> real \<Rightarrow> real \<Rightarrow> real \<Rightarrow> real list \<Rightarrow> nat \<Rightarrow> TFNode list" where
  "tf_terminal security dt u d cps N = map (tf_terminal_node security dt u d cps N) [0..<N + 1]"

subsection \<open>Backward induction\<close>

definition can_call :: "SecuritySchema \<Rightarrow> date \<Rightarrow> bool" where
  "can_call security stepDate =
     (if has_call_option security \<and> call_price security \<noteq> None
      then (let end_date = (case call_end_date security of
                              Some e \<Rightarrow> e | None \<Rightarrow> maturity_date security)
            in (case call_start_date security of
                  None \<Rightarrow> False
                | Some start \<Rightarrow> stepDate \<ge> start \<and> stepDate \<le> end_date))
      else False)"

definition can_put :: "SecuritySchema \<Rightarrow> date \<Rightarrow> bool" where
  "can_put security stepDate =
     (if has_put_option security \<and> put_price security \<noteq> None
      then (let end_date = (case put_end_date security of
                              Some e \<Rightarrow> e | None \<Rightarrow> maturity_date security)
            in (case put_start_date security of
                  None \<Rightarrow> False
                | Some start \<Rightarrow> stepDate \<ge> start \<and> stepDate \<le> end_date))
      else False)"

text \<open>
  The mutable locals of one node, \<^verbatim>\<open>V_hold\<close>, \<^verbatim>\<open>D_final\<close>, \<^verbatim>\<open>E_final\<close> and
  \<^verbatim>\<open>flag\<close>, and the three decisions that update them in turn.
\<close>

record NodeState =
  V_hold :: real
  D_final :: real
  E_final :: real
  flag :: string

definition check_conversion :: "real \<Rightarrow> NodeState \<Rightarrow> NodeState" where
  "check_conversion val_convert_opt s =
     (if val_convert_opt > V_hold s
      then \<lparr>V_hold = val_convert_opt, D_final = 0, E_final = val_convert_opt, flag = ''CONVERT''\<rparr>
      else s)"

definition call_option_issuer :: "bool \<Rightarrow> real option \<Rightarrow> real \<Rightarrow> NodeState \<Rightarrow> NodeState" where
  "call_option_issuer callable call_price_opt val_convert_opt s =
     (if callable
      then (case call_price_opt of
              None \<Rightarrow> s
            | Some call_strike \<Rightarrow>
                (let holder_val = max call_strike val_convert_opt
                 in if holder_val < V_hold s
                    then (if val_convert_opt > call_strike
                          then \<lparr>V_hold = holder_val, D_final = 0, E_final = val_convert_opt,
                                flag = ''CALLED_FORCE_CONV''\<rparr>
                          else \<lparr>V_hold = holder_val, D_final = call_strike, E_final = 0,
                                flag = ''CALLED''\<rparr>)
                    else s))
      else s)"

definition put_option_holder :: "bool \<Rightarrow> real option \<Rightarrow> NodeState \<Rightarrow> NodeState" where
  "put_option_holder puttable put_price_opt s =
     (if puttable
      then (case put_price_opt of
              None \<Rightarrow> s
            | Some put_strike \<Rightarrow>
                if put_strike > V_hold s
                then \<lparr>V_hold = put_strike, D_final = put_strike, E_final = 0, flag = ''PUT''\<rparr>
                else s)
      else s)"

text \<open>The rollback of one node: the locals before any decision.\<close>

definition rollback ::
  "SecuritySchema \<Rightarrow> real list \<Rightarrow> real list \<Rightarrow> real \<Rightarrow> real \<Rightarrow> real \<Rightarrow> nat \<Rightarrow> TFNode list \<Rightarrow> nat \<Rightarrow> NodeState" where
  "rollback security rf_t cs_t dt u d t next_row i =
     (let r_step = rf_t ! t;
          cs_step = cs_t ! t;
          q = up_prob r_step dt u d;
          df_rf = exp (- r_step * dt);
          df_risky = exp (- (r_step + cs_step) * dt);
          E_D = q * D_leg (next_row ! (i + 1)) + (1 - q) * D_leg (next_row ! i);
          E_E = q * E_leg (next_row ! (i + 1)) + (1 - q) * E_leg (next_row ! i);
          D_cont = E_D * df_risky + unit_periodic_cf security dt;
          E_cont = E_E * df_rf
      in \<lparr>V_hold = D_cont + E_cont, D_final = D_cont, E_final = E_cont, flag = ''HOLD''\<rparr>)"

text \<open>
  The conversion value of a node. The participating branch of the source assigns the
  same \<^verbatim>\<open>val_convert_base\<close>, so \<^verbatim>\<open>val_convert_opt\<close> is the base value in every case.
\<close>

definition val_convert_opt :: "SecuritySchema \<Rightarrow> real \<Rightarrow> real \<Rightarrow> real list \<Rightarrow> nat \<Rightarrow> nat \<Rightarrow> real" where
  "val_convert_opt security u d cps t i =
     share_price (share_price_current security) u d t i * getEffectiveConversionRatio security cps t"

text \<open>The locals of node \<open>(t, i)\<close> after each of the three decisions, in the order of the source.\<close>

definition after_conversion ::
  "SecuritySchema \<Rightarrow> real list \<Rightarrow> real list \<Rightarrow> real \<Rightarrow> real \<Rightarrow> real \<Rightarrow> real list \<Rightarrow> nat \<Rightarrow> TFNode list \<Rightarrow> nat \<Rightarrow> NodeState" where
  "after_conversion security rf_t cs_t dt u d cps t next_row i =
     check_conversion (val_convert_opt security u d cps t i)
       (rollback security rf_t cs_t dt u d t next_row i)"

definition after_call ::
  "SecuritySchema \<Rightarrow> TimeStep list \<Rightarrow> real list \<Rightarrow> real list \<Rightarrow> real \<Rightarrow> real \<Rightarrow> real \<Rightarrow> real list \<Rightarrow> nat \<Rightarrow> TFNode list \<Rightarrow> nat \<Rightarrow> NodeState" where
  "after_call security time_grid rf_t cs_t dt u d cps t next_row i =
     call_option_issuer (can_call security (date (time_grid ! t))) (call_price security)
       (val_convert_opt security u d cps t i)
       (after_conversion security rf_t cs_t dt u d cps t next_row i)"

definition after_put ::
  "SecuritySchema \<Rightarrow> TimeStep list \<Rightarrow> real list \<Rightarrow> real list \<Rightarrow> real \<Rightarrow> real \<Rightarrow> real \<Rightarrow> real list \<Rightarrow> nat \<Rightarrow> TFNode list \<Rightarrow> nat \<Rightarrow> NodeState" where
  "after_put security time_grid rf_t cs_t dt u d cps t next_row i =
     put_option_holder (can_put security (date (time_grid ! t))) (put_price security)
       (after_call security time_grid rf_t cs_t dt u d cps t next_row i)"

text \<open>What the loop body stores in \<^verbatim>\<open>D[t][i]\<close>, \<^verbatim>\<open>E[t][i]\<close> and \<^verbatim>\<open>Flags[t][i]\<close>.\<close>

definition tf_node ::
  "SecuritySchema \<Rightarrow> TimeStep list \<Rightarrow> real list \<Rightarrow> real list \<Rightarrow> real \<Rightarrow> real \<Rightarrow> real \<Rightarrow> real list \<Rightarrow> nat \<Rightarrow> TFNode list \<Rightarrow> nat \<Rightarrow> TFNode" where
  "tf_node security time_grid rf_t cs_t dt u d cps t next_row i =
     (let s = after_put security time_grid rf_t cs_t dt u d cps t next_row i
      in \<lparr>D_leg = D_final s, E_leg = E_final s, tf_flag = flag s\<rparr>)"

definition tf_step ::
  "SecuritySchema \<Rightarrow> TimeStep list \<Rightarrow> real list \<Rightarrow> real list \<Rightarrow> real \<Rightarrow> real \<Rightarrow> real \<Rightarrow> real list \<Rightarrow> nat \<Rightarrow> TFNode list \<Rightarrow> TFNode list" where
  "tf_step security time_grid rf_t cs_t dt u d cps t next_row =
     map (tf_node security time_grid rf_t cs_t dt u d cps t next_row) [0..<t + 1]"

text \<open>
  The backward loop: \<open>tf_back \<dots> N k\<close> is the row of step \<open>N - k\<close>, reached after
  \<open>k\<close> passes of the loop body.
\<close>

fun tf_back ::
  "SecuritySchema \<Rightarrow> TimeStep list \<Rightarrow> real list \<Rightarrow> real list \<Rightarrow> real \<Rightarrow> real \<Rightarrow> real \<Rightarrow> nat \<Rightarrow> nat \<Rightarrow> TFNode list" where
  "tf_back security time_grid rf_t cs_t dt u d N 0 =
     tf_terminal security dt u d (cp_at_step security time_grid N) N"
| "tf_back security time_grid rf_t cs_t dt u d N (Suc k) =
     tf_step security time_grid rf_t cs_t dt u d (cp_at_step security time_grid N) (N - Suc k)
       (tf_back security time_grid rf_t cs_t dt u d N k)"

text \<open>The rows \<^verbatim>\<open>D[t]\<close>, \<^verbatim>\<open>E[t]\<close>, \<^verbatim>\<open>Flags[t]\<close> when the loop has finished, for \<open>t \<le> N\<close>.\<close>

definition tf_row ::
  "SecuritySchema \<Rightarrow> TimeStep list \<Rightarrow> real list \<Rightarrow> real list \<Rightarrow> real \<Rightarrow> real \<Rightarrow> real \<Rightarrow> nat \<Rightarrow> nat \<Rightarrow> TFNode list" where
  "tf_row security time_grid rf_t cs_t dt u d N t =
     tf_back security time_grid rf_t cs_t dt u d N (N - t)"

subsection \<open>Host contract, aggregation and logs\<close>

text \<open>One pass of the host loop on \<^verbatim>\<open>(host_val_unit, df_accum)\<close>.\<close>

definition host_step ::
  "real \<Rightarrow> real list \<Rightarrow> real list \<Rightarrow> real \<Rightarrow> real \<times> real \<Rightarrow> nat \<Rightarrow> real \<times> real" where
  "host_step cf rf_t cs_t dt acc t_step =
     (let step_df = exp (- (rf_t ! t_step + cs_t ! t_step) * dt);
          df_accum = snd acc * step_df
      in (fst acc + cf * df_accum, df_accum))"

definition host_val_unit :: "SecuritySchema \<Rightarrow> real list \<Rightarrow> real list \<Rightarrow> real \<Rightarrow> nat \<Rightarrow> real" where
  "host_val_unit security rf_t cs_t dt N =
     (case foldl (host_step (unit_periodic_cf security dt) rf_t cs_t dt) (0, 1) [0..<N] of
        (host, df_accum) \<Rightarrow> host + unit_redemption_value security * df_accum)"

text \<open>Decimal digits of a number, for the template string of \<^verbatim>\<open>node_id\<close>.\<close>

fun show_nat :: "nat \<Rightarrow> string" where
  "show_nat n =
     (if n < 10 then [char_of (48 + n)]
      else show_nat (n div 10) @ [char_of (48 + n mod 10)])"

declare show_nat.simps [simp del]

definition tf_log_row ::
  "SecuritySchema \<Rightarrow> TimeStep list \<Rightarrow> real list \<Rightarrow> real list \<Rightarrow> real \<Rightarrow> real \<Rightarrow> real \<Rightarrow> nat \<Rightarrow> nat \<Rightarrow> nat \<Rightarrow> NodeLogRow" where
  "tf_log_row security time_grid rf_t cs_t dt u d N t i =
     (let nd = tf_row security time_grid rf_t cs_t dt u d N t ! i
      in \<lparr>log_t = t, log_i = i,
          log_date = dateStr (time_grid ! t),
          node_id = ''t'' @ show_nat t @ ''_i'' @ show_nat i,
          S_ti = share_price (share_price_current security) u d t i,
          D_ti = D_leg nd,
          E_ti = E_leg nd,
          V_ti = D_leg nd + E_leg nd,
          event_flag = tf_flag nd,
          q_up = 0,
          log_rf_t = (if t < N then rf_t ! t else 0),
          log_cs_t = 0,
          conversion_price_eff = Some (cp_at_step security time_grid N ! t)\<rparr>)"

definition tf_node_logs ::
  "SecuritySchema \<Rightarrow> TimeStep list \<Rightarrow> real list \<Rightarrow> real list \<Rightarrow> real \<Rightarrow> real \<Rightarrow> real \<Rightarrow> nat \<Rightarrow> NodeLogRow list" where
  "tf_node_logs security time_grid rf_t cs_t dt u d N =
     concat (map (\<lambda>t. map (tf_log_row security time_grid rf_t cs_t dt u d N t) [0..<t + 1])
                 [0..<min N 5 + 1])"

definition calculateTF ::
  "SecuritySchema \<Rightarrow> TimeStep list \<Rightarrow> real list \<Rightarrow> real list \<Rightarrow> real \<Rightarrow> real \<Rightarrow> real \<Rightarrow> nat \<Rightarrow> PricingResult" where
  "calculateTF security time_grid rf_t cs_t dt u d N =
     (let root = tf_row security time_grid rf_t cs_t dt u d N 0 ! 0;
          host_unit = host_val_unit security rf_t cs_t dt N;
          hybrid_val_unit = D_leg root + E_leg root;
          deriv_val_unit = hybrid_val_unit - host_unit;
          total_hybrid_long =
            (if isPerShare security then hybrid_val_unit * num_issued_shares security
             else hybrid_val_unit);
          total_host_long =
            (if isPerShare security then host_unit * num_issued_shares security
             else host_unit);
          total_deriv_long =
            (if isPerShare security then deriv_val_unit * num_issued_shares security
             else deriv_val_unit);
          sgn = (if position security = ISSUER then - 1 else 1)
      in \<lparr>fair_value_total = total_hybrid_long * sgn,
          fair_value_per_share =
            (if isPerShare security then Some (hybrid_val_unit * sgn) else None),
          fair_value_host = total_host_long * sgn,
          fair_value_deriv = total_deriv_long * sgn,
          fair_value_deriv_asset = max (total_deriv_long * sgn) 0,
          fair_value_deriv_liab = max (- (total_deriv_long * sgn)) 0,
          eso_val_per_option = None,
          tf_debt_component = D_leg root,
          tf_equity_component = E_leg root,
          node_logs = tf_node_logs security time_grid rf_t cs_t dt u d N,
          meta = \<lparr>meta_dt = dt, meta_u = u, meta_d = d, meta_N = N,
                   meta_valuation_date = valuation_date security,
                   meta_maturity_date = maturity_date security,
                   used_curve_source = Some (curve_source security),
                   eff_cp_final = Some (cp_at_step security time_grid N ! N)\<rparr>\<rparr>)"

section \<open>Engine entry point (runPricingEngine)\<close>

text \<open>The result of the \<^verbatim>\<open>N <= 0\<close> branch.\<close>

definition zero_result :: "SecuritySchema \<Rightarrow> PricingResult" where
  "zero_result security =
     \<lparr>fair_value_total = 0,
      fair_value_per_share = None,
      fair_value_host = 0,
      fair_value_deriv = 0,
      fair_value_deriv_asset = 0,
      fair_value_deriv_liab = 0,
      eso_val_per_option = None,
      tf_debt_component = 0,
      tf_equity_component = 0,
      node_logs = [],
      meta = \<lparr>meta_dt = 0, meta_u = 0, meta_d = 0, meta_N = 0,
               meta_valuation_date = valuation_date security,
               meta_maturity_date = maturity_date security,
               used_curve_source = None,
               eff_cp_final = None\<rparr>\<rparr>"

text \<open>The grid of a security, and the number of steps \<^verbatim>\<open>time_grid.length - 1\<close>.\<close>

definition engine_grid :: "SecuritySchema \<Rightarrow> TimeStep list" where
  "engine_grid security = generateTimeGrid (valuation_date security) (maturity_date security)"

definition engine_N :: "SecuritySchema \<Rightarrow> nat" where
  "engine_N security = length (engine_grid security) - 1"

definition engine_dt :: "SecuritySchema \<Rightarrow> real" where
  "engine_dt security =
     t_years (engine_grid security ! engine_N security) / real (engine_N security)"

definition engine_u :: "SecuritySchema \<Rightarrow> real" where
  "engine_u security = exp (volatility security * sqrt (engine_dt security))"

definition engine_d :: "SecuritySchema \<Rightarrow> real" where
  "engine_d security = 1 / engine_u security"

text \<open>A stepwise array of length at least \<open>N\<close> is cut to \<open>N\<close>; otherwise the flat rate fills.\<close>

definition stepwise_or_flat :: "real list option \<Rightarrow> real \<Rightarrow> nat \<Rightarrow> real list" where
  "stepwise_or_flat stepwise flat N =
     (case stepwise of
        Some rs \<Rightarrow> if length rs \<ge> N then take N rs else replicate N flat
      | None \<Rightarrow> replicate N flat)"

definition engine_rf_t :: "SecuritySchema \<Rightarrow> real list" where
  "engine_rf_t security =
     stepwise_or_flat (stepwise_risk_free_rates security) (risk_free_rate security)
       (engine_N security)"

definition engine_cs_t :: "SecuritySchema \<Rightarrow> real list" where
  "engine_cs_t security =
     stepwise_or_flat (stepwise_credit_spreads security) (credit_spread security)
       (engine_N security)"

definition runPricingEngine :: "SecuritySchema \<Rightarrow> PricingResult" where
  "runPricingEngine security =
     (let time_grid = engine_grid security
      in if engine_N security \<le> 0 then zero_result security
         else if security_type security = ESO
         then calculateESO security time_grid (engine_rf_t security)
                (engine_dt security) (engine_u security) (engine_d security) (engine_N security)
         else calculateTF security time_grid (engine_rf_t security) (engine_cs_t security)
                (engine_dt security) (engine_u security) (engine_d security) (engine_N security))"

text \<open>The root node \<^verbatim>\<open>(D[0][0], E[0][0])\<close> of the lattice the engine builds for a TF security.\<close>

definition engine_tf_root :: "SecuritySchema \<Rightarrow> TFNode" where
  "engine_tf_root security =
     tf_row security (engine_grid security) (engine_rf_t security) (engine_cs_t security)
       (engine_dt security) (engine_u security) (engine_d security) (engine_N security) 0 ! 0"

section \<open>Addition and division of doubles\<close>

text \<open>
  A finite double is a real number \<open>m * 2 ^ e\<close> with an integer \<open>m\<close> of at most 53 bits.
  The sum or quotient of two doubles is rounded to the nearest double, a tie going to the
  even significand. The exponent is not bounded here: an overflow to infinity is outside
  the model, and in the subnormal range the model rounds as in the normal range (the sum
  of two doubles in that range is a double, and is left as it is by the hardware and by
  the model alike).
\<close>

text \<open>The binary exponent of a number other than zero, and the unit of its last place.\<close>

definition binade :: "real \<Rightarrow> int" where
  "binade x = \<lfloor>log 2 \<bar>x\<bar>\<rfloor>"

definition ulp :: "real \<Rightarrow> real" where
  "ulp x = 2 powr real_of_int (binade x - 52)"

definition round_ties_even :: "real \<Rightarrow> int" where
  "round_ties_even y =
     (let f = \<lfloor>y\<rfloor>; r = y - real_of_int f
      in if r < 1 / 2 then f
         else if r > 1 / 2 then f + 1
         else if even f then f else f + 1)"

definition to_double :: "real \<Rightarrow> real" where
  "to_double x = (if x = 0 then 0 else real_of_int (round_ties_even (x / ulp x)) * ulp x)"



section \<open>Deal aggregator (calculateDeal)\<close>






section \<open>Conditions on the inputs and on the node locals\<close>

text \<open>
  A reset event is well formed for the weighted average when its new issue price, its new
  share count and its shares outstanding (if given) are not negative.
\<close>

definition well_formed_event :: "ResetEvent \<Rightarrow> bool" where
  "well_formed_event evt =
     (0 \<le> issue_price_new evt \<and> 0 \<le> issue_shares_new evt
      \<and> 0 \<le> or_default 0 (shares_outstanding_before_reset evt))"

text \<open>
  The divisors of the TF engine are not zero: the share count of a per-share security, the
  conversion prices of the schedule, and, under the weighted average, the divisors of the
  reset formula (which well-formed events keep positive).
\<close>

definition quotients_defined :: "SecuritySchema \<Rightarrow> TimeStep list \<Rightarrow> nat \<Rightarrow> bool" where
  "quotients_defined security time_grid N =
     ((isCB security \<or> num_issued_shares security \<noteq> 0)
      \<and> 0 \<notin> set (cp_at_step security time_grid N)
      \<and> (anti_dilution_type security = WA_DOWN_ONLY
           \<longrightarrow> list_all well_formed_event (reset_events security)))"



text \<open>A state of the node locals whose value and legs are not negative.\<close>

definition nonneg_state :: "NodeState \<Rightarrow> bool" where
  "nonneg_state s = (0 \<le> V_hold s \<and> 0 \<le> D_final s \<and> 0 \<le> E_final s)"

section \<open>Sample inputs\<close>

text \<open>
  The default security of the application (an RCPS held long), valued on 2024-01-01 with
  maturity one week later, so that the grid has the two points of one weekly step.
\<close>

definition sample_rcps :: SecuritySchema where
  "sample_rcps =
     \<lparr>security_type = RCPS, position = HOLDER,
      total_issue_price = 1000000000, num_issued_shares = 50000,
      share_price_current = 20000,
      valuation_date = 1704067200000, maturity_date = 1704672000000,
      coupon_rate = 2 / 100, dividend_rate = 0, repayment_premium_rate = Some (5 / 100),
      conversion_price = 20000, conversion_ratio = None,
      anti_dilution_type = FULL_RATCHET, refixing_floor_price = Some 14000,
      reset_events = [],
      participation_type = Some NON_PARTICIPATING, participation_cap_multiple = Some 2,
      volatility = 35 / 100, risk_free_rate = 35 / 1000, credit_spread = 2 / 100,
      stepwise_risk_free_rates = None, stepwise_credit_spreads = None,
      has_call_option = False, call_price = None,
      call_start_date = None, call_end_date = None,
      has_put_option = False, put_price = None,
      put_start_date = None, put_end_date = None,
      num_options = Some 0, strike_price = Some 0, vesting_end_date = None,
      employee_exit_rate = None, early_exercise_multiple = Some 2\<rparr>"

text \<open>The same terms as an employee stock option at the money.\<close>

definition sample_eso :: SecuritySchema where
  "sample_eso =
     sample_rcps\<lparr>security_type := ESO, num_options := Some 10000, strike_price := Some 20000\<rparr>"

text \<open>The sample security with an issuer call at 24000 per share, open from the valuation date.\<close>

definition sample_callable :: SecuritySchema where
  "sample_callable =
     sample_rcps\<lparr>has_call_option := True, call_price := Some 24000,
                 call_start_date := Some 1704067200000\<rparr>"

text \<open>The sample security with a call and a put that have a price but no start date.\<close>

definition sample_no_start :: SecuritySchema where
  "sample_no_start =
     sample_rcps\<lparr>has_call_option := True, call_price := Some 24000,
                 has_put_option := True, put_price := Some 22000\<rparr>"

text \<open>The sample security valued on its maturity date.\<close>

definition sample_matured :: SecuritySchema where
  "sample_matured = sample_rcps\<lparr>maturity_date := 1704067200000\<rparr>"

text \<open>
  The sample security with two weeks to maturity and one down round at 15000 a week after
  the valuation date, under the full ratchet and under the weighted average.
\<close>

definition sample_reset :: SecuritySchema where
  "sample_reset =
     sample_rcps\<lparr>maturity_date := 1705276800000,
       reset_events := [\<lparr>event_date = 1704672000000, issue_price_new = 15000,
                          issue_shares_new = 100000,
                          shares_outstanding_before_reset = Some 1000000\<rparr>]\<rparr>"

definition sample_reset_wa :: SecuritySchema where
  "sample_reset_wa = sample_reset\<lparr>anti_dilution_type := WA_DOWN_ONLY\<rparr>"

text \<open>
  The same with an initial conversion price of 10000, below the floor of 14000, and a down
  round at 9000; and the sample security itself with that conversion price and no event.
\<close>

definition sample_reset_below_floor :: SecuritySchema where
  "sample_reset_below_floor =
     sample_rcps\<lparr>maturity_date := 1705276800000, conversion_price := 10000,
       reset_events := [\<lparr>event_date = 1704672000000, issue_price_new = 9000,
                          issue_shares_new = 100000,
                          shares_outstanding_before_reset = Some 1000000\<rparr>]\<rparr>"

definition sample_below_floor :: SecuritySchema where
  "sample_below_floor = sample_rcps\<lparr>conversion_price := 10000\<rparr>"

text \<open>
  A convertible bond at the money with one week to maturity, on an underlying of very low
  volatility: face 100, conversion price 100, spot 100, no coupon, volatility 0.5 percent,
  risk-free rate and credit spread 5 percent each.
\<close>

definition sample_low_vol_cb :: SecuritySchema where
  "sample_low_vol_cb =
     \<lparr>security_type = CB, position = HOLDER,
      total_issue_price = 100, num_issued_shares = 1,
      share_price_current = 100,
      valuation_date = 1704067200000, maturity_date = 1704672000000,
      coupon_rate = 0, dividend_rate = 0, repayment_premium_rate = None,
      conversion_price = 100, conversion_ratio = None,
      anti_dilution_type = NONE, refixing_floor_price = None,
      reset_events = [],
      participation_type = None, participation_cap_multiple = None,
      volatility = 1 / 200, risk_free_rate = 1 / 20, credit_spread = 1 / 20,
      stepwise_risk_free_rates = None, stepwise_credit_spreads = None,
      has_call_option = False, call_price = None,
      call_start_date = None, call_end_date = None,
      has_put_option = False, put_price = None,
      put_start_date = None, put_end_date = None,
      num_options = None, strike_price = None, vesting_end_date = None,
      employee_exit_rate = None, early_exercise_multiple = None\<rparr>"

text \<open>
  An employee option at the money on the same underlying, with a risk-free rate of minus
  5 percent.
\<close>

definition sample_negative_rate_eso :: SecuritySchema where
  "sample_negative_rate_eso =
     sample_low_vol_cb\<lparr>security_type := ESO, risk_free_rate := - (1 / 20),
       num_options := Some 1, strike_price := Some 100\<rparr>"



section \<open>Verified properties\<close>

subsection \<open>The grid has at least two points\<close>

lemma grid_loop_length:
  "length grid + (if currentDate < matDate then 1 else 0)
     \<le> length (fst (grid_loop valDate matDate currentDate stp grid))"
proof (induction valDate matDate currentDate stp grid rule: grid_loop.induct)
  case (1 valDate matDate currentDate stp grid)
  show ?case
  proof (cases "currentDate < matDate")
    case True
    from "1.IH" [OF True] have "length grid + 1
        \<le> length (fst (grid_loop valDate matDate (addDays currentDate 7) (stp + 1)
             (grid @ [\<lparr>step = stp, date = currentDate, dateStr = currentDate,
                       t_years = getDateDiffYears valDate currentDate\<rparr>])))"
      by (simp split: if_splits)
    with True show ?thesis
      by (subst grid_loop.simps) simp
  next
    case False
    then show ?thesis by (subst grid_loop.simps) simp
  qed
qed

lemma generateTimeGrid_length: "2 \<le> length (generateTimeGrid valDate matDate)"
  using grid_loop_length [where valDate = valDate and matDate = matDate and currentDate = valDate
      and stp = 0 and grid = "[]"]
  by (auto simp: generateTimeGrid_def split: prod.splits)

lemma engine_N_pos: "0 < engine_N security"
  using generateTimeGrid_length [of "valuation_date security" "maturity_date security"]
  by (simp add: engine_N_def engine_grid_def)

lemma runPricingEngine_dispatch:
  "runPricingEngine security =
     (if security_type security = ESO
      then calculateESO security (engine_grid security) (engine_rf_t security)
             (engine_dt security) (engine_u security) (engine_d security) (engine_N security)
      else calculateTF security (engine_grid security) (engine_rf_t security) (engine_cs_t security)
             (engine_dt security) (engine_u security) (engine_d security) (engine_N security))"
  using engine_N_pos [of security] by (simp add: runPricingEngine_def Let_def)

subsection \<open>Total, host and derivative value\<close>

lemma calculateTF_total:
  "fair_value_total (calculateTF security time_grid rf_t cs_t dt u d N) =
     (if isPerShare security
      then (D_leg (tf_row security time_grid rf_t cs_t dt u d N 0 ! 0)
            + E_leg (tf_row security time_grid rf_t cs_t dt u d N 0 ! 0)) * num_issued_shares security
      else D_leg (tf_row security time_grid rf_t cs_t dt u d N 0 ! 0)
            + E_leg (tf_row security time_grid rf_t cs_t dt u d N 0 ! 0))
     * (if position security = ISSUER then - 1 else 1)"
  by (simp add: calculateTF_def Let_def)

lemma calculateTF_host:
  "fair_value_host (calculateTF security time_grid rf_t cs_t dt u d N) =
     (if isPerShare security
      then host_val_unit security rf_t cs_t dt N * num_issued_shares security
      else host_val_unit security rf_t cs_t dt N)
     * (if position security = ISSUER then - 1 else 1)"
  by (simp add: calculateTF_def Let_def)

lemma calculateTF_deriv:
  "fair_value_deriv (calculateTF security time_grid rf_t cs_t dt u d N) =
     (if isPerShare security
      then (D_leg (tf_row security time_grid rf_t cs_t dt u d N 0 ! 0)
            + E_leg (tf_row security time_grid rf_t cs_t dt u d N 0 ! 0)
            - host_val_unit security rf_t cs_t dt N) * num_issued_shares security
      else D_leg (tf_row security time_grid rf_t cs_t dt u d N 0 ! 0)
            + E_leg (tf_row security time_grid rf_t cs_t dt u d N 0 ! 0)
            - host_val_unit security rf_t cs_t dt N)
     * (if position security = ISSUER then - 1 else 1)"
  by (simp add: calculateTF_def Let_def)

lemma calculateTF_balance:
  "fair_value_total (calculateTF security time_grid rf_t cs_t dt u d N)
     = fair_value_host (calculateTF security time_grid rf_t cs_t dt u d N)
       + fair_value_deriv (calculateTF security time_grid rf_t cs_t dt u d N)"
  unfolding calculateTF_total calculateTF_host calculateTF_deriv
  by (simp add: algebra_simps)

lemma calculateESO_balance:
  "fair_value_total (calculateESO security time_grid rf_t dt u d N)
     = fair_value_host (calculateESO security time_grid rf_t dt u d N)
       + fair_value_deriv (calculateESO security time_grid rf_t dt u d N)"
  by (simp add: calculateESO_def Let_def)

text \<open>
  C1. For every security priced by the engine, TF or ESO, the result satisfies
  \<open>fair_value_total = fair_value_host + fair_value_deriv\<close>, exactly in exact arithmetic.
\<close>

theorem fair_value_total_is_host_plus_deriv:
  "fair_value_total (runPricingEngine security)
     = fair_value_host (runPricingEngine security) + fair_value_deriv (runPricingEngine security)"
proof (cases "security_type security = ESO")
  case True
  then show ?thesis
    by (simp add: runPricingEngine_dispatch calculateESO_balance)
next
  case False
  then show ?thesis
    by (simp add: runPricingEngine_dispatch calculateTF_balance)
qed

subsection \<open>Sampled node logs\<close>

lemma tf_node_logs_index:
  "map (\<lambda>r. (log_t r, log_i r)) (tf_node_logs security time_grid rf_t cs_t dt u d N)
     = concat (map (\<lambda>t. map (Pair t) [0..<t + 1]) [0..<min N 5 + 1])"
  by (simp add: tf_node_logs_def map_concat comp_def tf_log_row_def Let_def)

lemma calculateTF_node_logs:
  "node_logs (calculateTF security time_grid rf_t cs_t dt u d N)
     = tf_node_logs security time_grid rf_t cs_t dt u d N"
  by (simp add: calculateTF_def Let_def)

lemma calculateESO_node_logs:
  "node_logs (calculateESO security time_grid rf_t dt u d N) = []"
  by (simp add: calculateESO_def Let_def)

lemma sampled_nodes_set:
  "set (concat (map (\<lambda>t. map (Pair t) [0..<t + 1]) [0..<M + 1]))
     = {(t, i). t \<le> M \<and> i \<le> t}"
  by (auto simp del: upt_Suc simp: less_Suc_eq_le)

lemma sampled_nodes_distinct:
  "distinct (concat (map (\<lambda>t. map (Pair t) [0..<t + 1]) [0..<M]))"
  by (induction M) (auto simp: distinct_map inj_on_def)

lemma sample_eso_grid: "engine_grid sample_eso =
   [\<lparr>step = 0, date = 1704067200000, dateStr = 1704067200000, t_years = 0\<rparr>,
    \<lparr>step = 1, date = 1704672000000, dateStr = 1704672000000, t_years = 7 / 365\<rparr>]"
  by (simp add: engine_grid_def sample_eso_def sample_rcps_def generateTimeGrid_def
        grid_loop.simps addDays_def MS_PER_DAY_def getDateDiffYears_def)

text \<open>
  The log of the TF engine lists the nodes \<open>(t, i)\<close> for \<open>t = 0, \<dots>, min N 5\<close> and
  \<open>i = 0, \<dots>, t\<close>, in this order and each once (by \<open>sampled_nodes_set\<close> the list holds
  exactly the pairs with \<open>t \<le> min N 5\<close> and \<open>i \<le> t\<close>, by \<open>sampled_nodes_distinct\<close> none
  twice).
\<close>

lemma tf_engine_node_logs:
  assumes "security_type security \<noteq> ESO"
  shows "map (\<lambda>r. (log_t r, log_i r)) (node_logs (runPricingEngine security))
     = concat (map (\<lambda>t. map (Pair t) [0..<t + 1]) [0..<min (engine_N security) 5 + 1])"
  using assms
  by (simp add: runPricingEngine_dispatch calculateTF_node_logs tf_node_logs_index)

text \<open>
  C7. The claim asks for a log row for every node \<open>(t, i)\<close> with \<open>t \<le> min N 5\<close> and
  \<open>i \<le> t\<close>, for an ESO as for a TF security. The ESO engine returns no row: the sample
  option is priced on a lattice of one step, with the nodes \<open>(0, 0)\<close>, \<open>(1, 0)\<close> and
  \<open>(1, 1)\<close>, and the log of its result is empty.
\<close>

theorem eso_node_logs_missing:
  "security_type sample_eso = ESO \<and> engine_N sample_eso = 1
   \<and> min (engine_N sample_eso) 5 = 1
   \<and> node_logs (runPricingEngine sample_eso) = []"
  by (simp add: runPricingEngine_dispatch calculateESO_node_logs engine_N_def sample_eso_grid)
     (simp add: sample_eso_def sample_rcps_def)

subsection \<open>Rows of the TF lattice\<close>

lemma tf_back_length:
  "k \<le> N \<Longrightarrow> length (tf_back security time_grid rf_t cs_t dt u d N k) = N - k + 1"
  by (induction k) (simp_all add: tf_terminal_def tf_step_def)

lemma tf_row_terminal:
  "tf_row security time_grid rf_t cs_t dt u d N N
     = tf_terminal security dt u d (cp_at_step security time_grid N) N"
  by (simp add: tf_row_def)

lemma tf_row_step:
  assumes "t < N"
  shows "tf_row security time_grid rf_t cs_t dt u d N t
     = tf_step security time_grid rf_t cs_t dt u d (cp_at_step security time_grid N) t
         (tf_row security time_grid rf_t cs_t dt u d N (t + 1))"
proof -
  from assms have "N - t = Suc (N - (t + 1))" and "N - Suc (N - (t + 1)) = t" by simp_all
  then show ?thesis by (simp add: tf_row_def)
qed

lemma tf_row_node:
  assumes "t < N" and "i \<le> t"
  shows "tf_row security time_grid rf_t cs_t dt u d N t ! i
     = tf_node security time_grid rf_t cs_t dt u d (cp_at_step security time_grid N) t
         (tf_row security time_grid rf_t cs_t dt u d N (t + 1)) i"
  using assms by (simp add: tf_row_step tf_step_def del: upt_Suc)

subsection \<open>Debt and equity components\<close>

text \<open>The position is read by the final sign only.\<close>

lemma position_update_units [simp]:
  "unit_face_value (security\<lparr>position := p\<rparr>) = unit_face_value security"
  "unit_redemption_value (security\<lparr>position := p\<rparr>) = unit_redemption_value security"
  "unit_periodic_cf (security\<lparr>position := p\<rparr>) dt = unit_periodic_cf security dt"
  "cp_at_step (security\<lparr>position := p\<rparr>) time_grid N = cp_at_step security time_grid N"
  "is_participating (security\<lparr>position := p\<rparr>) = is_participating security"
  by (simp_all add: unit_face_value_def unit_redemption_value_def unit_periodic_cf_def
        isPerShare_def isCB_def cp_at_step_def is_participating_def)

lemma position_update_windows [simp]:
  "can_call (security\<lparr>position := p\<rparr>) dd = can_call security dd"
  "can_put (security\<lparr>position := p\<rparr>) dd = can_put security dd"
  by (auto simp: can_call_def can_put_def Let_def split: option.splits)

lemma position_update_ratio [simp]:
  "getEffectiveConversionRatio (security\<lparr>position := p\<rparr>) cps t
     = getEffectiveConversionRatio security cps t"
  by (auto simp: getEffectiveConversionRatio_def split: option.splits)

lemma position_update_terminal [simp]:
  "tf_terminal_node (security\<lparr>position := p\<rparr>) dt u d cps N i
     = tf_terminal_node security dt u d cps N i"
  by (simp add: tf_terminal_node_def cong: if_cong option.case_cong)

lemma position_update_node [simp]:
  "tf_node (security\<lparr>position := p\<rparr>) time_grid rf_t cs_t dt u d cps t next_row i
     = tf_node security time_grid rf_t cs_t dt u d cps t next_row i"
  by (simp add: tf_node_def after_put_def after_call_def after_conversion_def rollback_def
        val_convert_opt_def)

lemma position_update_back:
  "tf_back (security\<lparr>position := p\<rparr>) time_grid rf_t cs_t dt u d N k
     = tf_back security time_grid rf_t cs_t dt u d N k"
  by (induction k) (simp_all add: tf_terminal_def tf_step_def)

lemma position_update_engine [simp]:
  "engine_grid (security\<lparr>position := p\<rparr>) = engine_grid security"
  "engine_N (security\<lparr>position := p\<rparr>) = engine_N security"
  "engine_dt (security\<lparr>position := p\<rparr>) = engine_dt security"
  "engine_u (security\<lparr>position := p\<rparr>) = engine_u security"
  "engine_d (security\<lparr>position := p\<rparr>) = engine_d security"
  "engine_rf_t (security\<lparr>position := p\<rparr>) = engine_rf_t security"
  "engine_cs_t (security\<lparr>position := p\<rparr>) = engine_cs_t security"
  by (simp_all add: engine_grid_def engine_N_def engine_dt_def engine_u_def engine_d_def
        engine_rf_t_def engine_cs_t_def)

lemma calculateTF_components:
  "tf_debt_component (calculateTF security time_grid rf_t cs_t dt u d N)
     = D_leg (tf_row security time_grid rf_t cs_t dt u d N 0 ! 0)"
  "tf_equity_component (calculateTF security time_grid rf_t cs_t dt u d N)
     = E_leg (tf_row security time_grid rf_t cs_t dt u d N 0 ! 0)"
  by (simp_all add: calculateTF_def Let_def)

lemma engine_components:
  assumes "security_type security \<noteq> ESO"
  shows "tf_debt_component (runPricingEngine security) = D_leg (engine_tf_root security)"
    and "tf_equity_component (runPricingEngine security) = E_leg (engine_tf_root security)"
  using assms
  by (simp_all add: runPricingEngine_dispatch calculateTF_components engine_tf_root_def)

lemma engine_tf_root_position:
  "engine_tf_root (security\<lparr>position := p\<rparr>) = engine_tf_root security"
  by (simp add: engine_tf_root_def tf_row_def position_update_back)

text \<open>
  C10. For a TF security the fields \<open>tf_debt_component\<close> and \<open>tf_equity_component\<close> are
  \<open>D[0][0]\<close> and \<open>E[0][0]\<close> of the lattice, the same for a HOLDER and an ISSUER, and their sum
  times the share count (1 for a CB) times the position sign (\<open>-1\<close> for an ISSUER, \<open>1\<close>
  for a HOLDER) is \<open>fair_value_total\<close>.
\<close>

theorem tf_components_are_root_legs:
  assumes "security_type security \<noteq> ESO"
  shows "tf_debt_component (runPricingEngine security) = D_leg (engine_tf_root security)
       \<and> tf_equity_component (runPricingEngine security) = E_leg (engine_tf_root security)
       \<and> tf_debt_component (runPricingEngine (security\<lparr>position := ISSUER\<rparr>))
           = tf_debt_component (runPricingEngine (security\<lparr>position := HOLDER\<rparr>))
       \<and> tf_equity_component (runPricingEngine (security\<lparr>position := ISSUER\<rparr>))
           = tf_equity_component (runPricingEngine (security\<lparr>position := HOLDER\<rparr>))
       \<and> (tf_debt_component (runPricingEngine security)
            + tf_equity_component (runPricingEngine security))
           * (if security_type security = CB then 1 else num_issued_shares security)
           * (if position security = ISSUER then - 1 else 1)
           = fair_value_total (runPricingEngine security)"
proof -
  have upd: "security_type (security\<lparr>position := p\<rparr>) \<noteq> ESO" for p
    using assms by simp
  have total: "fair_value_total (runPricingEngine security)
      = (D_leg (engine_tf_root security) + E_leg (engine_tf_root security))
        * (if security_type security = CB then 1 else num_issued_shares security)
        * (if position security = ISSUER then - 1 else 1)"
    using assms
    by (simp add: runPricingEngine_dispatch calculateTF_total engine_tf_root_def
          isPerShare_def isCB_def)
  show ?thesis
    by (simp add: engine_components [OF assms] engine_components [OF upd]
          engine_tf_root_position total)
qed

theorem tf_components_are_root_legs_witness:
  "security_type sample_rcps \<noteq> ESO
   \<and> tf_debt_component (runPricingEngine sample_rcps) = D_leg (engine_tf_root sample_rcps)
   \<and> tf_equity_component (runPricingEngine sample_rcps) = E_leg (engine_tf_root sample_rcps)
   \<and> tf_debt_component (runPricingEngine (sample_rcps\<lparr>position := ISSUER\<rparr>))
       = tf_debt_component (runPricingEngine (sample_rcps\<lparr>position := HOLDER\<rparr>))
   \<and> tf_equity_component (runPricingEngine (sample_rcps\<lparr>position := ISSUER\<rparr>))
       = tf_equity_component (runPricingEngine (sample_rcps\<lparr>position := HOLDER\<rparr>))
   \<and> (tf_debt_component (runPricingEngine sample_rcps)
        + tf_equity_component (runPricingEngine sample_rcps))
       * (if security_type sample_rcps = CB then 1 else num_issued_shares sample_rcps)
       * (if position sample_rcps = ISSUER then - 1 else 1)
       = fair_value_total (runPricingEngine sample_rcps)"
proof -
  have h: "security_type sample_rcps \<noteq> ESO"
    by (simp add: sample_rcps_def)
  from tf_components_are_root_legs [OF h] h show ?thesis
    by blast
qed

subsection \<open>The issuer call and the holder put\<close>

text \<open>
  C6. At a non-terminal node \<open>(t, i)\<close> whose step date lies in the call window, with
  \<open>s1\<close> the locals after the holder's conversion decision and \<open>s2\<close> the locals after the
  call decision: the call price \<open>c\<close> is set; if \<open>max c conv < V_hold s1\<close> the node value
  becomes \<open>max c conv\<close>, with \<open>(D, E) = (0, conv)\<close> and flag \<open>CALLED_FORCE_CONV\<close> when
  \<open>conv > c\<close>, and \<open>(D, E) = (c, 0)\<close> and flag \<open>CALLED\<close> otherwise; if
  \<open>max c conv \<ge> V_hold s1\<close> the call changes nothing. The node stored in the lattice is
  \<open>s2\<close> after the put decision.
\<close>

theorem issuer_call_decision:
  assumes "t < N" and "i \<le> t"
    and "can_call security (date (time_grid ! t))"
  shows "\<exists>c. call_price security = Some c \<and>
     (let cps = cp_at_step security time_grid N;
          next_row = tf_row security time_grid rf_t cs_t dt u d N (t + 1);
          conv = val_convert_opt security u d cps t i;
          s1 = after_conversion security rf_t cs_t dt u d cps t next_row i;
          s2 = after_call security time_grid rf_t cs_t dt u d cps t next_row i;
          s3 = put_option_holder (can_put security (date (time_grid ! t))) (put_price security) s2
      in (if max c conv < V_hold s1
          then V_hold s2 = max c conv \<and>
               (if conv > c
                then D_final s2 = 0 \<and> E_final s2 = conv \<and> flag s2 = ''CALLED_FORCE_CONV''
                else D_final s2 = c \<and> E_final s2 = 0 \<and> flag s2 = ''CALLED'')
          else s2 = s1)
         \<and> tf_row security time_grid rf_t cs_t dt u d N t ! i
             = \<lparr>D_leg = D_final s3, E_leg = E_final s3, tf_flag = flag s3\<rparr>)"
proof -
  from assms(3) obtain c where c: "call_price security = Some c"
    by (auto simp: can_call_def split: if_splits)
  have node: "tf_row security time_grid rf_t cs_t dt u d N t ! i
      = tf_node security time_grid rf_t cs_t dt u d (cp_at_step security time_grid N) t
          (tf_row security time_grid rf_t cs_t dt u d N (t + 1)) i"
    using assms(1,2) by (rule tf_row_node)
  show ?thesis
    unfolding node
    using c assms(3)
    by (auto simp: Let_def tf_node_def after_put_def after_call_def call_option_issuer_def)
qed

lemma sample_callable_grid: "engine_grid sample_callable =
   [\<lparr>step = 0, date = 1704067200000, dateStr = 1704067200000, t_years = 0\<rparr>,
    \<lparr>step = 1, date = 1704672000000, dateStr = 1704672000000, t_years = 7 / 365\<rparr>]"
  by (simp add: engine_grid_def sample_callable_def sample_rcps_def generateTimeGrid_def
        grid_loop.simps addDays_def MS_PER_DAY_def getDateDiffYears_def)

theorem issuer_call_decision_witness:
  "(0::nat) < 1 \<and> (0::nat) \<le> 0
   \<and> can_call sample_callable (date (engine_grid sample_callable ! 0))
   \<and> (\<exists>c. call_price sample_callable = Some c \<and>
     (let cps = cp_at_step sample_callable (engine_grid sample_callable) 1;
          next_row = tf_row sample_callable (engine_grid sample_callable) [35 / 1000] [2 / 100]
                       (7 / 365) 2 (1 / 2) 1 (0 + 1);
          conv = val_convert_opt sample_callable 2 (1 / 2) cps 0 0;
          s1 = after_conversion sample_callable [35 / 1000] [2 / 100] (7 / 365) 2 (1 / 2) cps 0
                 next_row 0;
          s2 = after_call sample_callable (engine_grid sample_callable) [35 / 1000] [2 / 100]
                 (7 / 365) 2 (1 / 2) cps 0 next_row 0;
          s3 = put_option_holder (can_put sample_callable (date (engine_grid sample_callable ! 0)))
                 (put_price sample_callable) s2
      in (if max c conv < V_hold s1
          then V_hold s2 = max c conv \<and>
               (if conv > c
                then D_final s2 = 0 \<and> E_final s2 = conv \<and> flag s2 = ''CALLED_FORCE_CONV''
                else D_final s2 = c \<and> E_final s2 = 0 \<and> flag s2 = ''CALLED'')
          else s2 = s1)
         \<and> tf_row sample_callable (engine_grid sample_callable) [35 / 1000] [2 / 100]
               (7 / 365) 2 (1 / 2) 1 0 ! 0
             = \<lparr>D_leg = D_final s3, E_leg = E_final s3, tf_flag = flag s3\<rparr>))"
proof -
  have h1: "(0::nat) < 1" and h2: "(0::nat) \<le> 0"
    by simp_all
  have h3: "can_call sample_callable (date (engine_grid sample_callable ! 0))"
    by (simp add: sample_callable_grid) (simp add: can_call_def sample_callable_def sample_rcps_def)
  from issuer_call_decision [OF h1 h2 h3] h1 h2 h3 show ?thesis
    by blast
qed

subsection \<open>Options without a start date\<close>

text \<open>Without a start date the window test of the source fails at every date.\<close>

lemma can_call_no_start: "call_start_date security = None \<Longrightarrow> \<not> can_call security dd"
  by (simp add: can_call_def Let_def)

lemma can_put_no_start: "put_start_date security = None \<Longrightarrow> \<not> can_put security dd"
  by (simp add: can_put_def Let_def)

text \<open>With a start date and no end date the window closes at the maturity date.\<close>

lemma can_call_default_end:
  assumes "has_call_option security" and "call_price security = Some c"
    and "call_start_date security = Some start" and "call_end_date security = None"
  shows "can_call security dd = (start \<le> dd \<and> dd \<le> maturity_date security)"
  using assms by (simp add: can_call_def Let_def)

lemma can_put_default_end:
  assumes "has_put_option security" and "put_price security = Some p"
    and "put_start_date security = Some start" and "put_end_date security = None"
  shows "can_put security dd = (start \<le> dd \<and> dd \<le> maturity_date security)"
  using assms by (simp add: can_put_def Let_def)

lemma has_call_update_units [simp]:
  "unit_face_value (security\<lparr>has_call_option := b\<rparr>) = unit_face_value security"
  "unit_redemption_value (security\<lparr>has_call_option := b\<rparr>) = unit_redemption_value security"
  "unit_periodic_cf (security\<lparr>has_call_option := b\<rparr>) dt = unit_periodic_cf security dt"
  "cp_at_step (security\<lparr>has_call_option := b\<rparr>) time_grid N = cp_at_step security time_grid N"
  "is_participating (security\<lparr>has_call_option := b\<rparr>) = is_participating security"
  "curve_source (security\<lparr>has_call_option := b\<rparr>) = curve_source security"
  by (simp_all add: unit_face_value_def unit_redemption_value_def unit_periodic_cf_def
        isPerShare_def isCB_def cp_at_step_def is_participating_def curve_source_def)

lemma has_call_update_put [simp]:
  "can_put (security\<lparr>has_call_option := b\<rparr>) dd = can_put security dd"
  by (auto simp: can_put_def Let_def split: option.splits)

lemma has_call_update_ratio [simp]:
  "getEffectiveConversionRatio (security\<lparr>has_call_option := b\<rparr>) cps t
     = getEffectiveConversionRatio security cps t"
  by (auto simp: getEffectiveConversionRatio_def split: option.splits)

lemma has_call_update_terminal [simp]:
  "tf_terminal_node (security\<lparr>has_call_option := b\<rparr>) dt u d cps N i
     = tf_terminal_node security dt u d cps N i"
  by (simp add: tf_terminal_node_def cong: if_cong option.case_cong)

lemma has_call_update_node:
  assumes "call_start_date security = None"
  shows "tf_node (security\<lparr>has_call_option := b\<rparr>) time_grid rf_t cs_t dt u d cps t next_row i
     = tf_node security time_grid rf_t cs_t dt u d cps t next_row i"
proof -
  have "\<not> can_call (security\<lparr>has_call_option := b\<rparr>) dd" for dd
    using assms by (simp add: can_call_no_start)
  moreover have "\<not> can_call security dd" for dd
    using assms by (simp add: can_call_no_start)
  ultimately show ?thesis
    by (simp add: tf_node_def after_put_def after_call_def after_conversion_def rollback_def
          val_convert_opt_def call_option_issuer_def)
qed

lemma has_call_update_back:
  assumes "call_start_date security = None"
  shows "tf_back (security\<lparr>has_call_option := b\<rparr>) time_grid rf_t cs_t dt u d N k
     = tf_back security time_grid rf_t cs_t dt u d N k"
  by (induction k) (simp_all add: tf_terminal_def tf_step_def has_call_update_node [OF assms])

lemma has_call_update_host [simp]:
  "host_val_unit (security\<lparr>has_call_option := b\<rparr>) rf_t cs_t dt N = host_val_unit security rf_t cs_t dt N"
  by (simp add: host_val_unit_def)

lemma has_call_update_row:
  assumes "call_start_date security = None"
  shows "tf_row (security\<lparr>has_call_option := b\<rparr>) time_grid rf_t cs_t dt u d N t
     = tf_row security time_grid rf_t cs_t dt u d N t"
  by (simp add: tf_row_def has_call_update_back [OF assms])

lemma has_call_update_log_row:
  assumes "call_start_date security = None"
  shows "tf_log_row (security\<lparr>has_call_option := b\<rparr>) time_grid rf_t cs_t dt u d N t
     = tf_log_row security time_grid rf_t cs_t dt u d N t"
  by (rule ext) (simp add: tf_log_row_def has_call_update_row [OF assms])

lemma has_call_update_logs:
  assumes "call_start_date security = None"
  shows "tf_node_logs (security\<lparr>has_call_option := b\<rparr>) time_grid rf_t cs_t dt u d N
     = tf_node_logs security time_grid rf_t cs_t dt u d N"
  by (simp add: tf_node_logs_def has_call_update_log_row [OF assms] del: upt_Suc)

lemma has_call_update_calculateTF:
  assumes "call_start_date security = None"
  shows "calculateTF (security\<lparr>has_call_option := b\<rparr>) time_grid rf_t cs_t dt u d N
     = calculateTF security time_grid rf_t cs_t dt u d N"
  by (simp add: calculateTF_def isPerShare_def isCB_def Let_def
        has_call_update_row [OF assms] has_call_update_logs [OF assms])

lemma has_put_update_units [simp]:
  "unit_face_value (security\<lparr>has_put_option := b\<rparr>) = unit_face_value security"
  "unit_redemption_value (security\<lparr>has_put_option := b\<rparr>) = unit_redemption_value security"
  "unit_periodic_cf (security\<lparr>has_put_option := b\<rparr>) dt = unit_periodic_cf security dt"
  "cp_at_step (security\<lparr>has_put_option := b\<rparr>) time_grid N = cp_at_step security time_grid N"
  "is_participating (security\<lparr>has_put_option := b\<rparr>) = is_participating security"
  "curve_source (security\<lparr>has_put_option := b\<rparr>) = curve_source security"
  by (simp_all add: unit_face_value_def unit_redemption_value_def unit_periodic_cf_def
        isPerShare_def isCB_def cp_at_step_def is_participating_def curve_source_def)

lemma has_put_update_call [simp]:
  "can_call (security\<lparr>has_put_option := b\<rparr>) dd = can_call security dd"
  by (auto simp: can_call_def Let_def split: option.splits)

lemma has_put_update_ratio [simp]:
  "getEffectiveConversionRatio (security\<lparr>has_put_option := b\<rparr>) cps t
     = getEffectiveConversionRatio security cps t"
  by (auto simp: getEffectiveConversionRatio_def split: option.splits)

lemma has_put_update_terminal [simp]:
  "tf_terminal_node (security\<lparr>has_put_option := b\<rparr>) dt u d cps N i
     = tf_terminal_node security dt u d cps N i"
  by (simp add: tf_terminal_node_def cong: if_cong option.case_cong)

lemma has_put_update_node:
  assumes "put_start_date security = None"
  shows "tf_node (security\<lparr>has_put_option := b\<rparr>) time_grid rf_t cs_t dt u d cps t next_row i
     = tf_node security time_grid rf_t cs_t dt u d cps t next_row i"
proof -
  have "\<not> can_put (security\<lparr>has_put_option := b\<rparr>) dd" for dd
    using assms by (simp add: can_put_no_start)
  moreover have "\<not> can_put security dd" for dd
    using assms by (simp add: can_put_no_start)
  ultimately show ?thesis
    by (simp add: tf_node_def after_put_def after_call_def after_conversion_def rollback_def
          val_convert_opt_def put_option_holder_def)
qed

lemma has_put_update_back:
  assumes "put_start_date security = None"
  shows "tf_back (security\<lparr>has_put_option := b\<rparr>) time_grid rf_t cs_t dt u d N k
     = tf_back security time_grid rf_t cs_t dt u d N k"
  by (induction k) (simp_all add: tf_terminal_def tf_step_def has_put_update_node [OF assms])

lemma has_put_update_host [simp]:
  "host_val_unit (security\<lparr>has_put_option := b\<rparr>) rf_t cs_t dt N = host_val_unit security rf_t cs_t dt N"
  by (simp add: host_val_unit_def)

lemma has_put_update_row:
  assumes "put_start_date security = None"
  shows "tf_row (security\<lparr>has_put_option := b\<rparr>) time_grid rf_t cs_t dt u d N t
     = tf_row security time_grid rf_t cs_t dt u d N t"
  by (simp add: tf_row_def has_put_update_back [OF assms])

lemma has_put_update_log_row:
  assumes "put_start_date security = None"
  shows "tf_log_row (security\<lparr>has_put_option := b\<rparr>) time_grid rf_t cs_t dt u d N t
     = tf_log_row security time_grid rf_t cs_t dt u d N t"
  by (rule ext) (simp add: tf_log_row_def has_put_update_row [OF assms])

lemma has_put_update_logs:
  assumes "put_start_date security = None"
  shows "tf_node_logs (security\<lparr>has_put_option := b\<rparr>) time_grid rf_t cs_t dt u d N
     = tf_node_logs security time_grid rf_t cs_t dt u d N"
  by (simp add: tf_node_logs_def has_put_update_log_row [OF assms] del: upt_Suc)

lemma has_put_update_calculateTF:
  assumes "put_start_date security = None"
  shows "calculateTF (security\<lparr>has_put_option := b\<rparr>) time_grid rf_t cs_t dt u d N
     = calculateTF security time_grid rf_t cs_t dt u d N"
  by (simp add: calculateTF_def isPerShare_def isCB_def Let_def
        has_put_update_row [OF assms] has_put_update_logs [OF assms])


lemma tf_terminal_node_flag:
  "tf_flag (tf_terminal_node security dt u d cps N i)
     \<in> {''MAT_PARTICIPATE'', ''MAT_CONVERT'', ''MAT_REDEEM''}"
  by (simp add: tf_terminal_node_def Let_def)

lemma tf_node_flag_no_call:
  assumes "\<not> can_call security (date (time_grid ! t))"
  shows "tf_flag (tf_node security time_grid rf_t cs_t dt u d cps t next_row i)
     \<in> {''HOLD'', ''CONVERT'', ''PUT''}"
  using assms
  by (auto simp: tf_node_def after_put_def after_call_def after_conversion_def
        put_option_holder_def call_option_issuer_def check_conversion_def rollback_def Let_def
        split: option.splits)

lemma tf_node_flag_no_put:
  assumes "\<not> can_put security (date (time_grid ! t))"
  shows "tf_flag (tf_node security time_grid rf_t cs_t dt u d cps t next_row i)
     \<in> {''HOLD'', ''CONVERT'', ''CALLED'', ''CALLED_FORCE_CONV''}"
  using assms
  by (auto simp: tf_node_def after_put_def after_call_def after_conversion_def
        put_option_holder_def call_option_issuer_def check_conversion_def rollback_def Let_def
        split: option.splits)

lemma tf_row_cases:
  assumes "t \<le> N" and "i \<le> t"
  shows "(t = N \<and> tf_row security time_grid rf_t cs_t dt u d N t ! i
            = tf_terminal_node security dt u d (cp_at_step security time_grid N) N i)
       \<or> (t < N \<and> tf_row security time_grid rf_t cs_t dt u d N t ! i
            = tf_node security time_grid rf_t cs_t dt u d (cp_at_step security time_grid N) t
                (tf_row security time_grid rf_t cs_t dt u d N (t + 1)) i)"
proof (cases "t = N")
  case True
  with assms(2) show ?thesis
    by (simp add: tf_row_terminal tf_terminal_def del: upt_Suc)
next
  case False
  with assms have "t < N" by simp
  with assms(2) show ?thesis
    by (simp add: tf_row_node)
qed

lemma no_call_flags:
  assumes "call_start_date security = None" and "t \<le> N" and "i \<le> t"
  shows "tf_flag (tf_row security time_grid rf_t cs_t dt u d N t ! i) \<noteq> ''CALLED''
       \<and> tf_flag (tf_row security time_grid rf_t cs_t dt u d N t ! i) \<noteq> ''CALLED_FORCE_CONV''"
proof -
  let ?cps = "cp_at_step security time_grid N"
  let ?next = "tf_row security time_grid rf_t cs_t dt u d N (t + 1)"
  from tf_row_cases [OF assms(2,3)]
  consider (terminal) "tf_row security time_grid rf_t cs_t dt u d N t ! i
        = tf_terminal_node security dt u d ?cps N i"
    | (inner) "tf_row security time_grid rf_t cs_t dt u d N t ! i
        = tf_node security time_grid rf_t cs_t dt u d ?cps t ?next i"
    by blast
  then show ?thesis
  proof cases
    case terminal
    with tf_terminal_node_flag [of security dt u d ?cps N i] show ?thesis
      by auto
  next
    case inner
    have "tf_flag (tf_node security time_grid rf_t cs_t dt u d ?cps t ?next i)
        \<in> {''HOLD'', ''CONVERT'', ''PUT''}"
      by (rule tf_node_flag_no_call) (simp add: can_call_no_start assms(1))
    with inner show ?thesis by auto
  qed
qed

lemma no_put_flags:
  assumes "put_start_date security = None" and "t \<le> N" and "i \<le> t"
  shows "tf_flag (tf_row security time_grid rf_t cs_t dt u d N t ! i) \<noteq> ''PUT''"
proof -
  let ?cps = "cp_at_step security time_grid N"
  let ?next = "tf_row security time_grid rf_t cs_t dt u d N (t + 1)"
  from tf_row_cases [OF assms(2,3)]
  consider (terminal) "tf_row security time_grid rf_t cs_t dt u d N t ! i
        = tf_terminal_node security dt u d ?cps N i"
    | (inner) "tf_row security time_grid rf_t cs_t dt u d N t ! i
        = tf_node security time_grid rf_t cs_t dt u d ?cps t ?next i"
    by blast
  then show ?thesis
  proof cases
    case terminal
    with tf_terminal_node_flag [of security dt u d ?cps N i] show ?thesis
      by auto
  next
    case inner
    have "tf_flag (tf_node security time_grid rf_t cs_t dt u d ?cps t ?next i)
        \<in> {''HOLD'', ''CONVERT'', ''CALLED'', ''CALLED_FORCE_CONV''}"
      by (rule tf_node_flag_no_put) (simp add: can_put_no_start assms(1))
    with inner show ?thesis by auto
  qed
qed

text \<open>
  C9. A TF security with no \<open>call_start_date\<close> is never called, whatever \<open>has_call_option\<close>
  and \<open>call_price\<close> say: the whole result is the result of the same security with the call
  switched off, and no node carries the flag \<open>CALLED\<close> or \<open>CALLED_FORCE_CONV\<close>. The same holds
  for the put and the flag \<open>PUT\<close> when \<open>put_start_date\<close> is missing.
\<close>

theorem missing_start_date_disables_option:
  "(call_start_date security = None \<longrightarrow>
      calculateTF security time_grid rf_t cs_t dt u d N
        = calculateTF (security\<lparr>has_call_option := False\<rparr>) time_grid rf_t cs_t dt u d N
      \<and> (\<forall>t\<le>N. \<forall>i\<le>t.
            tf_flag (tf_row security time_grid rf_t cs_t dt u d N t ! i) \<noteq> ''CALLED''
          \<and> tf_flag (tf_row security time_grid rf_t cs_t dt u d N t ! i) \<noteq> ''CALLED_FORCE_CONV''))
   \<and> (put_start_date security = None \<longrightarrow>
      calculateTF security time_grid rf_t cs_t dt u d N
        = calculateTF (security\<lparr>has_put_option := False\<rparr>) time_grid rf_t cs_t dt u d N
      \<and> (\<forall>t\<le>N. \<forall>i\<le>t.
            tf_flag (tf_row security time_grid rf_t cs_t dt u d N t ! i) \<noteq> ''PUT''))"
  using has_call_update_calculateTF [of security False time_grid rf_t cs_t dt u d N]
    has_put_update_calculateTF [of security False time_grid rf_t cs_t dt u d N]
    no_call_flags [where security = security and N = N and time_grid = time_grid
      and rf_t = rf_t and cs_t = cs_t and dt = dt and u = u and d = d]
    no_put_flags [where security = security and N = N and time_grid = time_grid
      and rf_t = rf_t and cs_t = cs_t and dt = dt and u = u and d = d]
  by simp

theorem missing_start_date_disables_option_witness:
  "has_call_option sample_no_start \<and> call_price sample_no_start = Some 24000
   \<and> has_put_option sample_no_start \<and> put_price sample_no_start = Some 22000
   \<and> call_start_date sample_no_start = None \<and> put_start_date sample_no_start = None
   \<and> calculateTF sample_no_start (engine_grid sample_no_start) [35 / 1000] [2 / 100] (7 / 365) 2 (1 / 2) 1
        = calculateTF (sample_no_start\<lparr>has_call_option := False\<rparr>) (engine_grid sample_no_start)
            [35 / 1000] [2 / 100] (7 / 365) 2 (1 / 2) 1
   \<and> calculateTF sample_no_start (engine_grid sample_no_start) [35 / 1000] [2 / 100] (7 / 365) 2 (1 / 2) 1
        = calculateTF (sample_no_start\<lparr>has_put_option := False\<rparr>) (engine_grid sample_no_start)
            [35 / 1000] [2 / 100] (7 / 365) 2 (1 / 2) 1
   \<and> tf_flag (tf_row sample_no_start (engine_grid sample_no_start) [35 / 1000] [2 / 100]
                (7 / 365) 2 (1 / 2) 1 0 ! 0) \<noteq> ''CALLED''
   \<and> tf_flag (tf_row sample_no_start (engine_grid sample_no_start) [35 / 1000] [2 / 100]
                (7 / 365) 2 (1 / 2) 1 0 ! 0) \<noteq> ''CALLED_FORCE_CONV''
   \<and> tf_flag (tf_row sample_no_start (engine_grid sample_no_start) [35 / 1000] [2 / 100]
                (7 / 365) 2 (1 / 2) 1 0 ! 0) \<noteq> ''PUT''"
proof -
  have h: "has_call_option sample_no_start" "call_price sample_no_start = Some 24000"
    "has_put_option sample_no_start" "put_price sample_no_start = Some 22000"
    "call_start_date sample_no_start = None" "put_start_date sample_no_start = None"
    by (simp_all add: sample_no_start_def sample_rcps_def)
  have le: "(0::nat) \<le> 1" "(0::nat) \<le> 0"
    by simp_all
  from missing_start_date_disables_option [of sample_no_start "engine_grid sample_no_start"
      "[35 / 1000]" "[2 / 100]" "7 / 365" 2 "1 / 2" 1] h le
  show ?thesis by blast
qed

subsection \<open>Maturity at or before the valuation date\<close>

lemma trivial_grid:
  assumes "maturity_date security \<le> valuation_date security"
  shows "engine_grid security =
     [\<lparr>step = 0, date = valuation_date security, dateStr = valuation_date security, t_years = 0\<rparr>,
      \<lparr>step = 1, date = valuation_date security, dateStr = valuation_date security,
        t_years = 27 / 10000\<rparr>]"
  using assms by (simp add: engine_grid_def generateTimeGrid_def)

lemma calculateTF_meta:
  "meta_N (meta (calculateTF security time_grid rf_t cs_t dt u d N)) = N"
  "meta_dt (meta (calculateTF security time_grid rf_t cs_t dt u d N)) = dt"
  by (simp_all add: calculateTF_def Let_def)

lemma calculateESO_meta:
  "meta_N (meta (calculateESO security time_grid rf_t dt u d N)) = N"
  "meta_dt (meta (calculateESO security time_grid rf_t dt u d N)) = dt"
  by (simp_all add: calculateESO_def Let_def)

lemma engine_meta:
  "meta_N (meta (runPricingEngine security)) = engine_N security"
  "meta_dt (meta (runPricingEngine security)) = engine_dt security"
  by (simp_all add: runPricingEngine_dispatch calculateTF_meta calculateESO_meta)

text \<open>
  C3, as the code has it. When the maturity date is at or before the valuation date the
  grid is the trivial grid of two points, so \<open>N = 1\<close> and \<open>dt = 0.0027\<close>: the engine does
  not take the \<open>N \<le> 0\<close> branch, it prices a lattice of one step with the ESO or the TF
  engine, and the result carries \<open>N = 1\<close> and \<open>dt = 0.0027\<close> in its meta block.
\<close>

theorem matured_security_one_step:
  assumes "maturity_date security \<le> valuation_date security"
  shows "engine_grid security =
       [\<lparr>step = 0, date = valuation_date security, dateStr = valuation_date security,
          t_years = 0\<rparr>,
        \<lparr>step = 1, date = valuation_date security, dateStr = valuation_date security,
          t_years = 27 / 10000\<rparr>]
     \<and> engine_N security = 1
     \<and> engine_dt security = 27 / 10000
     \<and> runPricingEngine security =
         (if security_type security = ESO
          then calculateESO security (engine_grid security) (engine_rf_t security)
                 (27 / 10000) (engine_u security) (engine_d security) 1
          else calculateTF security (engine_grid security) (engine_rf_t security)
                 (engine_cs_t security) (27 / 10000) (engine_u security) (engine_d security) 1)
     \<and> meta_N (meta (runPricingEngine security)) = 1
     \<and> meta_dt (meta (runPricingEngine security)) = 27 / 10000"
proof -
  note grid = trivial_grid [OF assms]
  have N: "engine_N security = 1"
    by (simp add: engine_N_def grid)
  have dt: "engine_dt security = 27 / 10000"
    by (simp add: engine_dt_def N) (simp add: grid)
  have run: "runPricingEngine security =
      (if security_type security = ESO
       then calculateESO security (engine_grid security) (engine_rf_t security)
              (27 / 10000) (engine_u security) (engine_d security) 1
       else calculateTF security (engine_grid security) (engine_rf_t security)
              (engine_cs_t security) (27 / 10000) (engine_u security) (engine_d security) 1)"
    using runPricingEngine_dispatch [of security] by (simp only: N dt)
  have mN: "meta_N (meta (runPricingEngine security)) = 1"
    by (simp add: engine_meta N)
  have mdt: "meta_dt (meta (runPricingEngine security)) = 27 / 10000"
    by (simp add: engine_meta dt)
  from grid N dt run mN mdt show ?thesis by blast
qed

lemma sample_matured_facts:
  "maturity_date sample_matured \<le> valuation_date sample_matured"
  "security_type sample_matured \<noteq> ESO"
  by (simp_all add: sample_matured_def sample_rcps_def)

theorem matured_security_one_step_witness:
  "maturity_date sample_matured \<le> valuation_date sample_matured
   \<and> engine_N sample_matured = 1
   \<and> engine_dt sample_matured = 27 / 10000
   \<and> meta_N (meta (runPricingEngine sample_matured)) = 1
   \<and> meta_dt (meta (runPricingEngine sample_matured)) = 27 / 10000"
  using matured_security_one_step [OF sample_matured_facts(1)] sample_matured_facts(1)
  by blast

lemma host_val_unit_one_step:
  "host_val_unit security [r] [cs] dt 1
     = (unit_periodic_cf security dt + unit_redemption_value security) * exp (- (r + cs) * dt)"
  by (simp add: host_val_unit_def host_step_def Let_def algebra_simps)

text \<open>
  C3 as stated fails: the sample security valued on its maturity date is priced on a
  lattice of one step. The result carries \<open>N = 1\<close>, three log rows and a positive host
  value; the all-zero result has \<open>N = 0\<close>, no log row and host value 0.
\<close>

theorem matured_security_counterexample:
  "maturity_date sample_matured \<le> valuation_date sample_matured
   \<and> meta_N (meta (runPricingEngine sample_matured)) = 1
   \<and> length (node_logs (runPricingEngine sample_matured)) = 3
   \<and> fair_value_host (runPricingEngine sample_matured) > 0"
proof -
  note le = sample_matured_facts(1)
  have N: "engine_N sample_matured = 1"
    by (simp add: engine_N_def trivial_grid [OF le])
  have dt: "engine_dt sample_matured = 27 / 10000"
    by (simp add: engine_dt_def N) (simp add: trivial_grid [OF le])
  have fields: "stepwise_risk_free_rates sample_matured = None"
    "stepwise_credit_spreads sample_matured = None"
    "risk_free_rate sample_matured = 35 / 1000" "credit_spread sample_matured = 2 / 100"
    by (simp_all add: sample_matured_def sample_rcps_def)
  have rf: "engine_rf_t sample_matured = [35 / 1000]"
    by (simp add: engine_rf_t_def N stepwise_or_flat_def fields)
  have cs: "engine_cs_t sample_matured = [2 / 100]"
    by (simp add: engine_cs_t_def N stepwise_or_flat_def fields)
  have run: "runPricingEngine sample_matured =
      calculateTF sample_matured (engine_grid sample_matured) [35 / 1000] [2 / 100]
        (27 / 10000) (engine_u sample_matured) (engine_d sample_matured) 1"
    using sample_matured_facts(2) by (simp add: runPricingEngine_dispatch N dt rf cs)
  have logs: "length (node_logs (runPricingEngine sample_matured)) = 3"
    by (simp add: run calculateTF_node_logs tf_node_logs_def)
  have cf: "unit_periodic_cf sample_matured (27 / 10000) = 27 / 25"
    by (simp add: unit_periodic_cf_def unit_face_value_def isPerShare_def isCB_def
          sample_matured_def sample_rcps_def)
  have red: "unit_redemption_value sample_matured = 21000"
    by (simp add: unit_redemption_value_def unit_face_value_def isPerShare_def isCB_def
          or_default_def sample_matured_def sample_rcps_def)
  have "fair_value_host (runPricingEngine sample_matured)
      = (27 / 25 + 21000) * exp (- (35 / 1000 + 2 / 100) * (27 / 10000)) * 50000"
    by (simp only: run calculateTF_host host_val_unit_one_step cf red)
       (simp add: isPerShare_def isCB_def sample_matured_def sample_rcps_def)
  then have "fair_value_host (runPricingEngine sample_matured) > 0"
    by simp
  with le logs show ?thesis
    by (simp add: engine_meta N)
qed

subsection \<open>Refixing schedule\<close>

lemma weighted_average_le:
  fixes cp sp so sn :: real
  assumes "0 \<le> sp" and "sp < cp" and "0 < so" and "0 \<le> sn"
  shows "cp * ((so + (sp / cp) * sn) / (so + sn)) \<le> cp"
proof -
  from assms have cp: "0 < cp" by simp
  then have "sp / cp \<le> 1" using assms(2) by simp
  then have "(sp / cp) * sn \<le> sn"
    using mult_right_mono [of "sp / cp" 1 sn] assms(4) by simp
  then have "(so + (sp / cp) * sn) / (so + sn) \<le> 1"
    using assms(3,4) by simp
  with cp show ?thesis
    using mult_left_mono [of "(so + (sp / cp) * sn) / (so + sn)" 1 cp] by simp
qed

lemma apply_reset_event_le:
  assumes "\<forall>fl. floor_price = Some fl \<and> fl \<noteq> 0 \<longrightarrow> fl \<le> cp"
    and "adt = WA_DOWN_ONLY \<longrightarrow> well_formed_event evt"
  shows "apply_reset_event adt floor_price cp evt \<le> cp"
proof (cases "issue_price_new evt < cp")
  case False
  then show ?thesis by (simp add: apply_reset_event_def)
next
  case True
  define cp1 where "cp1 =
    (if adt = FULL_RATCHET then issue_price_new evt
     else if adt = WA_DOWN_ONLY
     then cp * (((case shares_outstanding_before_reset evt of
                    Some so \<Rightarrow> if so \<noteq> 0 then so else 1000000 | None \<Rightarrow> 1000000)
                 + (issue_price_new evt / cp) * issue_shares_new evt)
                / ((case shares_outstanding_before_reset evt of
                      Some so \<Rightarrow> if so \<noteq> 0 then so else 1000000 | None \<Rightarrow> 1000000)
                   + issue_shares_new evt))
     else cp)"
  have res: "apply_reset_event adt floor_price cp evt =
      (case floor_price of Some fl \<Rightarrow> if fl \<noteq> 0 \<and> cp1 < fl then fl else cp1 | None \<Rightarrow> cp1)"
    using True by (simp add: apply_reset_event_def Let_def cp1_def cong: option.case_cong if_cong)
  have cp1: "cp1 \<le> cp"
  proof (cases "adt = WA_DOWN_ONLY")
    case wa: True
    with assms(2) have wf: "well_formed_event evt" by simp
    then have so: "0 < (case shares_outstanding_before_reset evt of
          Some so \<Rightarrow> if so \<noteq> 0 then so else 1000000 | None \<Rightarrow> (1000000::real))"
      by (auto simp: well_formed_event_def or_default_def split: option.splits)
    from wf have "0 \<le> issue_price_new evt" "0 \<le> issue_shares_new evt"
      by (simp_all add: well_formed_event_def)
    from weighted_average_le [OF this(1) True so this(2)] wa show ?thesis
      by (simp add: cp1_def)
  next
    case False
    with True show ?thesis by (simp add: cp1_def)
  qed
  with assms(1) show ?thesis
    unfolding res by (auto split: option.splits)
qed

lemma apply_reset_event_ge_floor:
  assumes "fl \<noteq> 0" and "fl \<le> cp"
  shows "fl \<le> apply_reset_event adt (Some fl) cp evt"
  using assms by (simp add: apply_reset_event_def Let_def)

lemma consume_events_le:
  assumes "\<forall>fl. floor_price = Some fl \<and> fl \<noteq> 0 \<longrightarrow> fl \<le> cp"
    and "adt = WA_DOWN_ONLY \<longrightarrow> (\<forall>e\<in>set evts. well_formed_event e)"
  shows "fst (consume_events adt floor_price dd cp evts) \<le> cp
       \<and> (\<forall>fl. floor_price = Some fl \<and> fl \<noteq> 0
             \<longrightarrow> fl \<le> fst (consume_events adt floor_price dd cp evts))
       \<and> set (snd (consume_events adt floor_price dd cp evts)) \<subseteq> set evts"
  using assms
proof (induction evts arbitrary: cp)
  case Nil
  then show ?case by simp
next
  case (Cons evt evts)
  show ?case
  proof (cases "event_date evt \<le> dd")
    case False
    with Cons.prems show ?thesis by simp
  next
    case True
    let ?cp' = "apply_reset_event adt floor_price cp evt"
    have le: "?cp' \<le> cp"
      using Cons.prems by (intro apply_reset_event_le) simp_all
    have fl: "\<forall>fl. floor_price = Some fl \<and> fl \<noteq> 0 \<longrightarrow> fl \<le> ?cp'"
      using Cons.prems(1) by (auto intro: apply_reset_event_ge_floor)
    have wf: "adt = WA_DOWN_ONLY \<longrightarrow> (\<forall>e\<in>set evts. well_formed_event e)"
      using Cons.prems(2) by simp
    from Cons.IH [OF fl wf] le True show ?thesis
      by auto
  qed
qed

lemma consume_events_ge_floor:
  assumes "fl \<noteq> 0" and "fl \<le> cp"
  shows "fl \<le> fst (consume_events adt (Some fl) dd cp evts)"
  using assms
proof (induction evts arbitrary: cp)
  case Nil
  then show ?case by simp
next
  case (Cons evt evts)
  then show ?case
    by (simp add: apply_reset_event_ge_floor)
qed

lemma refix_sweep_length:
  "length (refix_sweep adt floor_price cp evts dates) = length dates"
  by (induction dates arbitrary: cp evts) (simp_all split: prod.splits)

lemma refix_sweep_descending:
  assumes "\<forall>fl. floor_price = Some fl \<and> fl \<noteq> 0 \<longrightarrow> fl \<le> cp"
    and "adt = WA_DOWN_ONLY \<longrightarrow> (\<forall>e\<in>set evts. well_formed_event e)"
  shows "sorted_wrt (\<lambda>a b. b \<le> a) (refix_sweep adt floor_price cp evts dates)
       \<and> (\<forall>x\<in>set (refix_sweep adt floor_price cp evts dates). x \<le> cp)"
  using assms
proof (induction dates arbitrary: cp evts)
  case Nil
  then show ?case by simp
next
  case (Cons dd dates)
  obtain cp' evts' where c: "consume_events adt floor_price dd cp evts = (cp', evts')"
    by (cases "consume_events adt floor_price dd cp evts")
  have "fst (consume_events adt floor_price dd cp evts) \<le> cp
       \<and> (\<forall>fl. floor_price = Some fl \<and> fl \<noteq> 0
             \<longrightarrow> fl \<le> fst (consume_events adt floor_price dd cp evts))
       \<and> set (snd (consume_events adt floor_price dd cp evts)) \<subseteq> set evts"
    by (rule consume_events_le [OF Cons.prems])
  then have "cp' \<le> cp
       \<and> (\<forall>fl. floor_price = Some fl \<and> fl \<noteq> 0 \<longrightarrow> fl \<le> cp')
       \<and> set evts' \<subseteq> set evts"
    unfolding c fst_conv snd_conv .
  then have le: "cp' \<le> cp"
    and fl: "\<forall>fl. floor_price = Some fl \<and> fl \<noteq> 0 \<longrightarrow> fl \<le> cp'"
    and sub: "set evts' \<subseteq> set evts"
    by blast+
  from sub Cons.prems(2)
  have wf: "adt = WA_DOWN_ONLY \<longrightarrow> (\<forall>e\<in>set evts'. well_formed_event e)"
    by auto
  from Cons.IH [OF fl wf] le c show ?case
    by auto
qed

lemma refix_sweep_ge_floor:
  assumes "fl \<noteq> 0" and "fl \<le> cp"
  shows "\<forall>x\<in>set (refix_sweep adt (Some fl) cp evts dates). fl \<le> x"
  using assms
proof (induction dates arbitrary: cp evts)
  case Nil
  then show ?case by simp
next
  case (Cons dd dates)
  obtain cp' evts' where c: "consume_events adt (Some fl) dd cp evts = (cp', evts')"
    by (cases "consume_events adt (Some fl) dd cp evts")
  from consume_events_ge_floor [OF Cons.prems, of adt dd evts] c have "fl \<le> cp'"
    by simp
  with Cons.IH [OF Cons.prems(1) this] c show ?case
    by simp
qed

lemma cp_at_step_length: "length (cp_at_step security time_grid N) = N + 1"
  by (simp add: cp_at_step_def refix_sweep_length)

lemma two_week_grid:
  "generateTimeGrid 1704067200000 1705276800000 =
     [\<lparr>step = 0, date = 1704067200000, dateStr = 1704067200000, t_years = 0\<rparr>,
      \<lparr>step = 1, date = 1704672000000, dateStr = 1704672000000, t_years = 7 / 365\<rparr>,
      \<lparr>step = 2, date = 1705276800000, dateStr = 1705276800000, t_years = 14 / 365\<rparr>]"
  by (simp add: generateTimeGrid_def grid_loop.simps addDays_def MS_PER_DAY_def
        getDateDiffYears_def)

lemma one_week_grid:
  "generateTimeGrid 1704067200000 1704672000000 =
     [\<lparr>step = 0, date = 1704067200000, dateStr = 1704067200000, t_years = 0\<rparr>,
      \<lparr>step = 1, date = 1704672000000, dateStr = 1704672000000, t_years = 7 / 365\<rparr>]"
  by (simp add: generateTimeGrid_def grid_loop.simps addDays_def MS_PER_DAY_def
        getDateDiffYears_def)

lemma steps_upto_two: "[0..<3] = [0, 1, 2]" and steps_upto_one: "[0..<2] = [0, 1]"
  by (simp_all add: upt_rec)

text \<open>The scenario of a full ratchet to 15000 over a floor of 14000, and its weighted average.\<close>

lemma sample_reset_schedule:
  "engine_N sample_reset = 2"
  "cp_at_step sample_reset (engine_grid sample_reset) 2 = [20000, 15000, 15000]"
  by (simp_all add: engine_N_def engine_grid_def sample_reset_def sample_rcps_def two_week_grid
        cp_at_step_def apply_reset_event_def steps_upto_two)

lemma sample_reset_wa_schedule:
  "engine_N sample_reset_wa = 2"
  "cp_at_step sample_reset_wa (engine_grid sample_reset_wa) 2 = [20000, 215000 / 11, 215000 / 11]"
  by (simp_all add: engine_N_def engine_grid_def sample_reset_wa_def sample_reset_def
        sample_rcps_def two_week_grid cp_at_step_def apply_reset_event_def
        steps_upto_two)

text \<open>
  C4, as the code has it. When the floor is unset or not above the initial conversion
  price (and, under the weighted average, the reset events are well formed), the schedule
  never rises: \<open>cp_eff[t + 1] \<le> cp_eff[t]\<close> for every step \<open>t < N\<close>.
\<close>

theorem cp_at_step_monotone:
  assumes "\<forall>fl. refixing_floor_price security = Some fl \<longrightarrow> fl \<le> conversion_price security"
    and "anti_dilution_type security = WA_DOWN_ONLY
           \<longrightarrow> (\<forall>e\<in>set (reset_events security). well_formed_event e)"
    and "t < N"
  shows "cp_at_step security time_grid N ! (t + 1) \<le> cp_at_step security time_grid N ! t"
proof (cases "anti_dilution_type security \<noteq> NONE \<and> reset_events security \<noteq> []")
  case False
  with assms(3) show ?thesis
    by (auto simp: cp_at_step_def simp del: replicate.simps)
next
  case True
  let ?xs = "refix_sweep (anti_dilution_type security) (refixing_floor_price security)
      (conversion_price security) (sort_key event_date (reset_events security))
      (map (\<lambda>t. date (time_grid ! t)) [0..<N + 1])"
  have "sorted_wrt (\<lambda>a b. b \<le> a) ?xs"
    using assms(1,2) by (intro refix_sweep_descending [THEN conjunct1]) simp_all
  moreover have "length ?xs = N + 1"
    by (simp add: refix_sweep_length)
  ultimately have "?xs ! (t + 1) \<le> ?xs ! t"
    using assms(3) by (intro sorted_wrt_nth_less [where P = "\<lambda>a b. b \<le> a"]) simp_all
  with True show ?thesis
    by (simp add: cp_at_step_def)
qed

theorem cp_at_step_monotone_witness:
  "refixing_floor_price sample_reset_wa = Some 14000
   \<and> 14000 \<le> conversion_price sample_reset_wa
   \<and> anti_dilution_type sample_reset_wa = WA_DOWN_ONLY
   \<and> list_all well_formed_event (reset_events sample_reset_wa)
   \<and> (1::nat) < 2
   \<and> cp_at_step sample_reset_wa (engine_grid sample_reset_wa) 2 ! (1 + 1)
       \<le> cp_at_step sample_reset_wa (engine_grid sample_reset_wa) 2 ! 1
   \<and> (0::nat) < 2
   \<and> cp_at_step sample_reset_wa (engine_grid sample_reset_wa) 2 ! (0 + 1)
       \<le> cp_at_step sample_reset_wa (engine_grid sample_reset_wa) 2 ! 0"
proof -
  have h: "refixing_floor_price sample_reset_wa = Some 14000"
    "14000 \<le> conversion_price sample_reset_wa"
    "anti_dilution_type sample_reset_wa = WA_DOWN_ONLY"
    "list_all well_formed_event (reset_events sample_reset_wa)"
    by (simp_all add: sample_reset_wa_def sample_reset_def sample_rcps_def
          well_formed_event_def or_default_def)
  have h1: "\<forall>fl. refixing_floor_price sample_reset_wa = Some fl
      \<longrightarrow> fl \<le> conversion_price sample_reset_wa"
    using h(1,2) by simp
  have h2: "anti_dilution_type sample_reset_wa = WA_DOWN_ONLY
      \<longrightarrow> (\<forall>e\<in>set (reset_events sample_reset_wa). well_formed_event e)"
    using h(4) by (simp add: list_all_iff)
  have lt: "(1::nat) < 2" "(0::nat) < 2"
    by simp_all
  from cp_at_step_monotone [OF h1 h2 lt(1)] cp_at_step_monotone [OF h1 h2 lt(2)] h lt
  show ?thesis by blast
qed

text \<open>
  C4 as stated fails when the initial conversion price is below the floor: with a
  conversion price of 10000, a floor of 14000 and a down round at 9000 in the second week,
  the schedule is 10000 at step 0 and the floor, 14000, from step 1 on.
\<close>

theorem cp_at_step_rises_counterexample:
  "engine_N sample_reset_below_floor = 2
   \<and> cp_at_step sample_reset_below_floor (engine_grid sample_reset_below_floor) 2 ! 0 = 10000
   \<and> cp_at_step sample_reset_below_floor (engine_grid sample_reset_below_floor) 2 ! (0 + 1) = 14000"
  by (simp add: engine_N_def engine_grid_def sample_reset_below_floor_def sample_rcps_def
        two_week_grid cp_at_step_def apply_reset_event_def
        steps_upto_two)

text \<open>
  C5, as the code has it. When the floor is set (and not zero, which the code reads as
  unset), the initial conversion price is not below it and, under the weighted average,
  the reset events are well formed, the schedule stays at or above the floor:
  \<open>cp_eff[t] \<ge> floor\<close> for every step \<open>t \<le> N\<close>.
\<close>

theorem cp_at_step_ge_floor:
  assumes "refixing_floor_price security = Some fl" and "fl \<noteq> 0"
    and "fl \<le> conversion_price security"
    and "anti_dilution_type security = WA_DOWN_ONLY
           \<longrightarrow> (\<forall>e\<in>set (reset_events security). well_formed_event e)"
    and "t \<le> N"
  shows "fl \<le> cp_at_step security time_grid N ! t"
proof -
  have "\<forall>x\<in>set (cp_at_step security time_grid N). fl \<le> x"
    using assms(1) refix_sweep_ge_floor [OF assms(2,3)] assms(3)
    by (simp add: cp_at_step_def)
  moreover have "t < length (cp_at_step security time_grid N)"
    using assms(5) by (simp add: cp_at_step_length)
  ultimately show ?thesis
    using nth_mem by blast
qed

theorem cp_at_step_ge_floor_witness:
  "refixing_floor_price sample_reset_wa = Some 14000 \<and> (14000::real) \<noteq> 0
   \<and> 14000 \<le> conversion_price sample_reset_wa
   \<and> anti_dilution_type sample_reset_wa = WA_DOWN_ONLY
   \<and> list_all well_formed_event (reset_events sample_reset_wa)
   \<and> (2::nat) \<le> 2
   \<and> 14000 \<le> cp_at_step sample_reset_wa (engine_grid sample_reset_wa) 2 ! 2"
proof -
  have h: "refixing_floor_price sample_reset_wa = Some 14000" "(14000::real) \<noteq> 0"
    "14000 \<le> conversion_price sample_reset_wa"
    by (simp_all add: sample_reset_wa_def sample_reset_def sample_rcps_def)
  have wa: "anti_dilution_type sample_reset_wa = WA_DOWN_ONLY"
    "list_all well_formed_event (reset_events sample_reset_wa)"
    by (simp_all add: sample_reset_wa_def sample_reset_def sample_rcps_def
          well_formed_event_def or_default_def)
  then have wf: "anti_dilution_type sample_reset_wa = WA_DOWN_ONLY
      \<longrightarrow> (\<forall>e\<in>set (reset_events sample_reset_wa). well_formed_event e)"
    by (simp add: list_all_iff)
  have le: "(2::nat) \<le> 2"
    by simp
  from cp_at_step_ge_floor [OF h wf le] h wa le show ?thesis
    by blast
qed

text \<open>
  C5 as stated fails when the initial conversion price is below the floor: with a
  conversion price of 10000, a floor of 14000 and no reset event, the schedule is 10000
  at every step.
\<close>

theorem cp_at_step_below_floor_counterexample:
  "refixing_floor_price sample_below_floor = Some 14000
   \<and> engine_N sample_below_floor = 1
   \<and> cp_at_step sample_below_floor (engine_grid sample_below_floor) 1 ! 0 = 10000
   \<and> cp_at_step sample_below_floor (engine_grid sample_below_floor) 1 ! 1 = 10000"
  by (simp add: engine_N_def engine_grid_def sample_below_floor_def sample_rcps_def
        one_week_grid cp_at_step_def steps_upto_one)

subsection \<open>Sign of the lattice legs\<close>

lemma eso_back_length:
  "k \<le> N \<Longrightarrow> length (eso_back security time_grid rf_t dt u d N k) = N - k + 1"
  by (induction k) (simp_all add: eso_terminal_def eso_step_def)

lemma eso_terminal_node_nonneg: "0 \<le> eso_E (eso_terminal_node security u d N i)"
  by (simp add: eso_terminal_node_def Let_def)

lemma expectation_nonneg:
  fixes q a b :: real
  assumes "0 \<le> q" and "q \<le> 1" and "0 \<le> a" and "0 \<le> b"
  shows "0 \<le> q * a + (1 - q) * b"
  using assms by simp

lemma eso_node_nonneg:
  assumes "0 \<le> up_prob (rf_t ! t) dt u d" and "up_prob (rf_t ! t) dt u d \<le> 1"
    and "0 \<le> eso_E (E_next_row ! (i + 1))" and "0 \<le> eso_E (E_next_row ! i)"
  shows "0 \<le> eso_E (eso_node security time_grid rf_t dt u d t E_next_row i)"
proof -
  have "0 \<le> up_prob (rf_t ! t) dt u d * eso_E (E_next_row ! (i + 1))
            + (1 - up_prob (rf_t ! t) dt u d) * eso_E (E_next_row ! i)"
    using assms by (rule expectation_nonneg)
  then show ?thesis
    by (simp add: eso_node_def Let_def)
qed

lemma eso_back_nonneg:
  assumes "\<forall>s<N. 0 \<le> up_prob (rf_t ! s) dt u d \<and> up_prob (rf_t ! s) dt u d \<le> 1"
  shows "k \<le> N \<Longrightarrow> i \<le> N - k
     \<Longrightarrow> 0 \<le> eso_E (eso_back security time_grid rf_t dt u d N k ! i)"
proof (induction k arbitrary: i)
  case 0
  then show ?case
    by (simp add: eso_terminal_def eso_terminal_node_nonneg del: upt_Suc)
next
  case (Suc k)
  let ?t = "N - Suc k"
  let ?next = "eso_back security time_grid rf_t dt u d N k"
  from Suc.prems have t: "?t < N" and k: "k \<le> N" and i: "i \<le> ?t"
    by simp_all
  from Suc.prems have "i + 1 \<le> N - k" and "i \<le> N - k"
    by simp_all
  with Suc.IH [OF k] have "0 \<le> eso_E (?next ! (i + 1))" and "0 \<le> eso_E (?next ! i)"
    by blast+
  moreover from assms t have "0 \<le> up_prob (rf_t ! ?t) dt u d"
    and "up_prob (rf_t ! ?t) dt u d \<le> 1"
    by blast+
  ultimately have "0 \<le> eso_E (eso_node security time_grid rf_t dt u d ?t ?next i)"
    by (intro eso_node_nonneg)
  with i show ?case
    by (simp add: eso_step_def del: upt_Suc)
qed

lemma tf_terminal_node_nonneg:
  assumes "0 \<le> unit_redemption_value security + unit_periodic_cf security dt"
  shows "0 \<le> D_leg (tf_terminal_node security dt u d cps N i)
       \<and> 0 \<le> E_leg (tf_terminal_node security dt u d cps N i)"
  using assms by (simp add: tf_terminal_node_def Let_def)

text \<open>The three decisions keep a state whose value and legs are not negative.\<close>

lemma check_conversion_nonneg:
  "nonneg_state s \<Longrightarrow> nonneg_state (check_conversion conv s)"
  by (simp add: nonneg_state_def check_conversion_def)

lemma call_option_issuer_nonneg:
  assumes "nonneg_state s" and "0 \<le> or_default 0 call_price_opt"
  shows "nonneg_state (call_option_issuer callable call_price_opt conv s)"
  using assms
  by (auto simp: nonneg_state_def call_option_issuer_def or_default_def Let_def
        split: option.splits)

lemma put_option_holder_nonneg:
  "nonneg_state s \<Longrightarrow> nonneg_state (put_option_holder puttable put_price_opt s)"
  by (auto simp: nonneg_state_def put_option_holder_def split: option.splits)

lemma rollback_nonneg:
  assumes "0 \<le> up_prob (rf_t ! t) dt u d" and "up_prob (rf_t ! t) dt u d \<le> 1"
    and "0 \<le> unit_periodic_cf security dt"
    and "0 \<le> D_leg (next_row ! (i + 1))" and "0 \<le> D_leg (next_row ! i)"
    and "0 \<le> E_leg (next_row ! (i + 1))" and "0 \<le> E_leg (next_row ! i)"
  shows "nonneg_state (rollback security rf_t cs_t dt u d t next_row i)"
proof -
  let ?q = "up_prob (rf_t ! t) dt u d"
  have "0 \<le> ?q * D_leg (next_row ! (i + 1)) + (1 - ?q) * D_leg (next_row ! i)"
    using assms(1,2,4,5) by (rule expectation_nonneg)
  moreover have "0 \<le> ?q * E_leg (next_row ! (i + 1)) + (1 - ?q) * E_leg (next_row ! i)"
    using assms(1,2,6,7) by (rule expectation_nonneg)
  ultimately show ?thesis
    using assms(3) by (simp add: rollback_def nonneg_state_def Let_def)
qed

lemma tf_node_nonneg:
  assumes "0 \<le> up_prob (rf_t ! t) dt u d" and "up_prob (rf_t ! t) dt u d \<le> 1"
    and "0 \<le> unit_periodic_cf security dt"
    and "0 \<le> or_default 0 (call_price security)"
    and "0 \<le> D_leg (next_row ! (i + 1))" and "0 \<le> D_leg (next_row ! i)"
    and "0 \<le> E_leg (next_row ! (i + 1))" and "0 \<le> E_leg (next_row ! i)"
  shows "0 \<le> D_leg (tf_node security time_grid rf_t cs_t dt u d cps t next_row i)
       \<and> 0 \<le> E_leg (tf_node security time_grid rf_t cs_t dt u d cps t next_row i)"
proof -
  have "nonneg_state (rollback security rf_t cs_t dt u d t next_row i)"
    using assms(1,2,3,5,6,7,8) by (rule rollback_nonneg)
  then have "nonneg_state (after_put security time_grid rf_t cs_t dt u d cps t next_row i)"
    unfolding after_put_def after_call_def after_conversion_def
    by (intro put_option_holder_nonneg call_option_issuer_nonneg check_conversion_nonneg assms(4))
  then show ?thesis
    by (simp add: tf_node_def nonneg_state_def Let_def)
qed

lemma tf_back_nonneg:
  assumes "\<forall>s<N. 0 \<le> up_prob (rf_t ! s) dt u d \<and> up_prob (rf_t ! s) dt u d \<le> 1"
    and "0 \<le> unit_periodic_cf security dt"
    and "0 \<le> unit_redemption_value security + unit_periodic_cf security dt"
    and "0 \<le> or_default 0 (call_price security)"
  shows "k \<le> N \<Longrightarrow> i \<le> N - k
     \<Longrightarrow> 0 \<le> D_leg (tf_back security time_grid rf_t cs_t dt u d N k ! i)
       \<and> 0 \<le> E_leg (tf_back security time_grid rf_t cs_t dt u d N k ! i)"
proof (induction k arbitrary: i)
  case 0
  then show ?case
    using tf_terminal_node_nonneg [OF assms(3)]
    by (simp add: tf_terminal_def del: upt_Suc)
next
  case (Suc k)
  let ?t = "N - Suc k"
  let ?cps = "cp_at_step security time_grid N"
  let ?next = "tf_back security time_grid rf_t cs_t dt u d N k"
  from Suc.prems have t: "?t < N" and k: "k \<le> N" and i: "i \<le> ?t"
    by simp_all
  from Suc.prems have "i + 1 \<le> N - k" and "i \<le> N - k"
    by simp_all
  with Suc.IH [OF k]
  have nx: "0 \<le> D_leg (?next ! (i + 1))" "0 \<le> D_leg (?next ! i)"
    "0 \<le> E_leg (?next ! (i + 1))" "0 \<le> E_leg (?next ! i)"
    by blast+
  from assms(1) t have q: "0 \<le> up_prob (rf_t ! ?t) dt u d" "up_prob (rf_t ! ?t) dt u d \<le> 1"
    by blast+
  have "0 \<le> D_leg (tf_node security time_grid rf_t cs_t dt u d ?cps ?t ?next i)
      \<and> 0 \<le> E_leg (tf_node security time_grid rf_t cs_t dt u d ?cps ?t ?next i)"
    using q assms(2,4) nx by (rule tf_node_nonneg)
  with i show ?case
    by (simp add: tf_step_def del: upt_Suc)
qed

text \<open>
  C2, as the code has it. Let the up and down factors differ and the up-probability of
  every step lie in \<open>[0, 1]\<close>. Then the option leg of the ESO lattice is not negative at
  any node; and when moreover the divisors of the TF engine are not zero and the periodic
  cash flow, the redemption payoff and the call price (if any) are not negative, the debt
  and equity legs of the TF lattice are not negative at any node.
\<close>

theorem lattice_legs_nonneg:
  assumes "u \<noteq> d"
    and "\<forall>s<N. 0 \<le> up_prob (rf_t ! s) dt u d \<and> up_prob (rf_t ! s) dt u d \<le> 1"
    and "t \<le> N" and "i \<le> t"
  shows "0 \<le> eso_E (eso_row security time_grid rf_t dt u d N t ! i)
     \<and> (quotients_defined security time_grid N
          \<and> 0 \<le> unit_periodic_cf security dt
          \<and> 0 \<le> unit_redemption_value security + unit_periodic_cf security dt
          \<and> 0 \<le> or_default 0 (call_price security)
        \<longrightarrow> 0 \<le> D_leg (tf_row security time_grid rf_t cs_t dt u d N t ! i)
          \<and> 0 \<le> E_leg (tf_row security time_grid rf_t cs_t dt u d N t ! i))"
proof -
  from assms(3,4) have k: "N - t \<le> N" and i: "i \<le> N - (N - t)"
    by simp_all
  have "0 \<le> eso_E (eso_row security time_grid rf_t dt u d N t ! i)"
    unfolding eso_row_def using assms(2) k i by (rule eso_back_nonneg)
  moreover have "0 \<le> D_leg (tf_row security time_grid rf_t cs_t dt u d N t ! i)
      \<and> 0 \<le> E_leg (tf_row security time_grid rf_t cs_t dt u d N t ! i)"
    if "0 \<le> unit_periodic_cf security dt"
      and "0 \<le> unit_redemption_value security + unit_periodic_cf security dt"
      and "0 \<le> or_default 0 (call_price security)"
    unfolding tf_row_def using assms(2) that k i by (rule tf_back_nonneg)
  ultimately show ?thesis
    by blast
qed

text \<open>The up-probability of a CRR step with \<open>u = exp a\<close> and \<open>d = 1 / u\<close>.\<close>

lemma crr_up_prob_range:
  assumes "0 < a" and "- a \<le> r * dt" and "r * dt \<le> a"
  shows "0 \<le> up_prob r dt (exp a) (1 / exp a) \<and> up_prob r dt (exp a) (1 / exp a) \<le> 1"
proof -
  have d: "1 / exp a = exp (- a)"
    by (simp add: exp_minus inverse_eq_divide)
  from assms(1) have gap: "0 < exp a - exp (- a)"
    by simp
  from assms(2) have lo: "0 \<le> exp (r * dt) - exp (- a)"
    by simp
  from assms(3) have hi: "exp (r * dt) - exp (- a) \<le> exp a - exp (- a)"
    by simp
  from gap lo hi show ?thesis
    unfolding up_prob_def d by simp
qed

lemma crr_up_prob_above_one:
  assumes "0 < a" and "a < r * dt"
  shows "1 < up_prob r dt (exp a) (1 / exp a)"
proof -
  have d: "1 / exp a = exp (- a)"
    by (simp add: exp_minus inverse_eq_divide)
  from assms(1) have gap: "0 < exp a - exp (- a)"
    by simp
  from assms(2) have "exp a - exp (- a) < exp (r * dt) - exp (- a)"
    by simp
  with gap show ?thesis
    unfolding up_prob_def d by simp
qed

lemma weekly_sqrt_bounds: "7 / 365 \<le> sqrt (7 / 365)" "sqrt (7 / 365) < 14 / 73"
proof -
  show "7 / 365 \<le> sqrt (7 / 365)"
    by (rule real_le_rsqrt) (simp add: power2_eq_square)
  show "sqrt (7 / 365) < 14 / 73"
    by (rule real_less_lsqrt) (simp_all add: power2_eq_square)
qed

theorem lattice_legs_nonneg_witness:
  "exp (35 / 100 * sqrt (7 / 365)) \<noteq> 1 / exp (35 / 100 * sqrt (7 / 365) :: real)
   \<and> 0 \<le> up_prob ([35 / 1000] ! 0) (7 / 365) (exp (35 / 100 * sqrt (7 / 365)))
          (1 / exp (35 / 100 * sqrt (7 / 365)))
   \<and> up_prob ([35 / 1000] ! 0) (7 / 365) (exp (35 / 100 * sqrt (7 / 365)))
          (1 / exp (35 / 100 * sqrt (7 / 365))) \<le> 1
   \<and> (0::nat) \<le> 1 \<and> (0::nat) \<le> 0
   \<and> quotients_defined sample_rcps (engine_grid sample_rcps) 1
   \<and> 0 \<le> unit_periodic_cf sample_rcps (7 / 365)
   \<and> 0 \<le> unit_redemption_value sample_rcps + unit_periodic_cf sample_rcps (7 / 365)
   \<and> 0 \<le> or_default 0 (call_price sample_rcps)
   \<and> 0 \<le> eso_E (eso_row sample_rcps (engine_grid sample_rcps) [35 / 1000] (7 / 365)
                   (exp (35 / 100 * sqrt (7 / 365))) (1 / exp (35 / 100 * sqrt (7 / 365))) 1 0 ! 0)
   \<and> 0 \<le> D_leg (tf_row sample_rcps (engine_grid sample_rcps) [35 / 1000] [2 / 100] (7 / 365)
                   (exp (35 / 100 * sqrt (7 / 365))) (1 / exp (35 / 100 * sqrt (7 / 365))) 1 0 ! 0)
   \<and> 0 \<le> E_leg (tf_row sample_rcps (engine_grid sample_rcps) [35 / 1000] [2 / 100] (7 / 365)
                   (exp (35 / 100 * sqrt (7 / 365))) (1 / exp (35 / 100 * sqrt (7 / 365))) 1 0 ! 0)"
proof -
  let ?a = "35 / 100 * sqrt (7 / 365) :: real"
  have a: "0 < ?a"
    by simp
  then have "1 / exp ?a < 1" and "1 < exp ?a"
    by simp_all
  then have ud: "exp ?a \<noteq> 1 / exp ?a"
    by linarith
  have "(35 / 1000) * (7 / 365) \<le> (35 / 100) * (7 / 365 :: real)"
    by simp
  also have "\<dots> \<le> ?a"
    using weekly_sqrt_bounds(1) by simp
  finally have hi: "(35 / 1000) * (7 / 365) \<le> ?a" .
  have "- ?a \<le> 0"
    using a by linarith
  also have "(0::real) \<le> (35 / 1000) * (7 / 365)"
    by simp
  finally have lo: "- ?a \<le> (35 / 1000) * (7 / 365)" .
  from crr_up_prob_range [OF a lo hi]
  have q: "0 \<le> up_prob ([35 / 1000] ! 0) (7 / 365) (exp ?a) (1 / exp ?a)"
    "up_prob ([35 / 1000] ! 0) (7 / 365) (exp ?a) (1 / exp ?a) \<le> 1"
    by simp_all
  then have qs: "\<forall>s<1. 0 \<le> up_prob ([35 / 1000] ! s) (7 / 365) (exp ?a) (1 / exp ?a)
      \<and> up_prob ([35 / 1000] ! s) (7 / 365) (exp ?a) (1 / exp ?a) \<le> 1"
    by simp
  have idx: "(0::nat) \<le> 1" "(0::nat) \<le> 0"
    by simp_all
  have fields: "security_type sample_rcps = RCPS" "num_issued_shares sample_rcps = 50000"
    "anti_dilution_type sample_rcps = FULL_RATCHET" "reset_events sample_rcps = []"
    "conversion_price sample_rcps = 20000"
    by (simp_all add: sample_rcps_def)
  have quot: "quotients_defined sample_rcps (engine_grid sample_rcps) 1"
    by (simp add: quotients_defined_def isCB_def cp_at_step_def fields)
  have inputs: "0 \<le> unit_periodic_cf sample_rcps (7 / 365)"
    "0 \<le> unit_redemption_value sample_rcps + unit_periodic_cf sample_rcps (7 / 365)"
    "0 \<le> or_default 0 (call_price sample_rcps)"
    by (simp_all add: unit_periodic_cf_def unit_redemption_value_def unit_face_value_def
          isPerShare_def isCB_def or_default_def sample_rcps_def)
  from lattice_legs_nonneg [OF ud qs idx, of sample_rcps "engine_grid sample_rcps" "[2 / 100]"]
    ud q idx quot inputs
  show ?thesis by blast
qed

text \<open>
  The low-volatility bond: \<open>a\<close> is the log of the up factor and \<open>b\<close> the rate times the
  step, for the risk-free rate and for the credit spread alike.
\<close>

lemma low_vol_step:
  "0 < (1 / 200) * sqrt (7 / 365 :: real)"
  "(1 / 200) * sqrt (7 / 365) < (1 / 20) * (7 / 365 :: real)"
proof -
  show "0 < (1 / 200) * sqrt (7 / 365 :: real)"
    by simp
  have "(1 / 200) * sqrt (7 / 365) < (1 / 200) * (14 / 73 :: real)"
    using weekly_sqrt_bounds(2) by simp
  then show "(1 / 200) * sqrt (7 / 365) < (1 / 20) * (7 / 365 :: real)"
    by simp
qed

lemma sample_low_vol_cb_engine:
  "engine_grid sample_low_vol_cb =
     [\<lparr>step = 0, date = 1704067200000, dateStr = 1704067200000, t_years = 0\<rparr>,
      \<lparr>step = 1, date = 1704672000000, dateStr = 1704672000000, t_years = 7 / 365\<rparr>]"
  "engine_N sample_low_vol_cb = 1"
  "engine_dt sample_low_vol_cb = 7 / 365"
  "engine_u sample_low_vol_cb = exp ((1 / 200) * sqrt (7 / 365))"
  "engine_d sample_low_vol_cb = 1 / exp ((1 / 200) * sqrt (7 / 365))"
  "engine_rf_t sample_low_vol_cb = [1 / 20]"
  "engine_cs_t sample_low_vol_cb = [1 / 20]"
proof -
  have fields: "valuation_date sample_low_vol_cb = 1704067200000"
    "maturity_date sample_low_vol_cb = 1704672000000"
    "volatility sample_low_vol_cb = 1 / 200"
    "stepwise_risk_free_rates sample_low_vol_cb = None"
    "stepwise_credit_spreads sample_low_vol_cb = None"
    "risk_free_rate sample_low_vol_cb = 1 / 20" "credit_spread sample_low_vol_cb = 1 / 20"
    by (simp_all add: sample_low_vol_cb_def)
  show grid: "engine_grid sample_low_vol_cb =
     [\<lparr>step = 0, date = 1704067200000, dateStr = 1704067200000, t_years = 0\<rparr>,
      \<lparr>step = 1, date = 1704672000000, dateStr = 1704672000000, t_years = 7 / 365\<rparr>]"
    by (simp add: engine_grid_def fields one_week_grid)
  show N: "engine_N sample_low_vol_cb = 1"
    by (simp add: engine_N_def grid)
  show dt: "engine_dt sample_low_vol_cb = 7 / 365"
    by (simp add: engine_dt_def N) (simp add: grid)
  show u: "engine_u sample_low_vol_cb = exp ((1 / 200) * sqrt (7 / 365))"
    by (simp add: engine_u_def dt fields)
  show "engine_d sample_low_vol_cb = 1 / exp ((1 / 200) * sqrt (7 / 365))"
    by (simp only: engine_d_def u)
  show "engine_rf_t sample_low_vol_cb = [1 / 20]"
    by (simp add: engine_rf_t_def N stepwise_or_flat_def fields)
  show "engine_cs_t sample_low_vol_cb = [1 / 20]"
    by (simp add: engine_cs_t_def N stepwise_or_flat_def fields)
qed

text \<open>
  The one-step lattice of the bond for any factors \<open>d < 1 < u\<close>: the up node converts, the
  down node redeems, and the root holds when the rolled-back value is at least the
  conversion value 100.
\<close>

lemma low_vol_cb_terminal:
  assumes "d < 1" and "1 < u"
  shows "tf_row sample_low_vol_cb time_grid rf_t cs_t dt u d 1 1 =
     [\<lparr>D_leg = 100, E_leg = 0, tf_flag = ''MAT_REDEEM''\<rparr>,
      \<lparr>D_leg = 0, E_leg = 100 * u, tf_flag = ''MAT_CONVERT''\<rparr>]"
  using assms
  by (simp add: tf_row_terminal tf_terminal_def steps_upto_one tf_terminal_node_def Let_def
        share_price_def getEffectiveConversionRatio_def cp_at_step_def
        unit_redemption_value_def unit_periodic_cf_def unit_face_value_def
        isPerShare_def isCB_def is_participating_def or_default_def sample_low_vol_cb_def)

lemma sample_low_vol_cb_fields:
  "security_type sample_low_vol_cb = CB"
  "total_issue_price sample_low_vol_cb = 100"
  "share_price_current sample_low_vol_cb = 100"
  "coupon_rate sample_low_vol_cb = 0"
  "conversion_price sample_low_vol_cb = 100"
  "conversion_ratio sample_low_vol_cb = None"
  "anti_dilution_type sample_low_vol_cb = NONE"
  "has_call_option sample_low_vol_cb = False"
  "has_put_option sample_low_vol_cb = False"
  by (simp_all add: sample_low_vol_cb_def)

lemma low_vol_cb_root:
  assumes "d < 1" and "1 < u"
    and "100 \<le> (1 - up_prob r dt u d) * 100 * exp (- (r + cs) * dt)
               + up_prob r dt u d * (100 * u) * exp (- r * dt)"
  shows "D_leg (tf_row sample_low_vol_cb time_grid [r] [cs] dt u d 1 0 ! 0)
     = (1 - up_prob r dt u d) * 100 * exp (- (r + cs) * dt)"
proof -
  let ?next = "[\<lparr>D_leg = 100, E_leg = 0, tf_flag = ''MAT_REDEEM''\<rparr>,
                \<lparr>D_leg = 0, E_leg = 100 * u, tf_flag = ''MAT_CONVERT''\<rparr>]"
  have "tf_row sample_low_vol_cb time_grid [r] [cs] dt u d 1 0 ! 0
      = tf_node sample_low_vol_cb time_grid [r] [cs] dt u d
          (cp_at_step sample_low_vol_cb time_grid 1) 0
          (tf_row sample_low_vol_cb time_grid [r] [cs] dt u d 1 (0 + 1)) 0"
    by (rule tf_row_node) simp_all
  also have "tf_row sample_low_vol_cb time_grid [r] [cs] dt u d 1 (0 + 1) = ?next"
    using low_vol_cb_terminal [OF assms(1,2)] by simp
  finally have node: "tf_row sample_low_vol_cb time_grid [r] [cs] dt u d 1 0 ! 0
      = tf_node sample_low_vol_cb time_grid [r] [cs] dt u d
          (cp_at_step sample_low_vol_cb time_grid 1) 0 ?next 0" .
  show ?thesis
    unfolding node using assms(3)
    by (simp add: tf_node_def after_put_def after_call_def
          after_conversion_def put_option_holder_def call_option_issuer_def check_conversion_def
          rollback_def val_convert_opt_def can_call_def can_put_def Let_def
          share_price_def getEffectiveConversionRatio_def cp_at_step_def
          unit_periodic_cf_def unit_face_value_def isPerShare_def isCB_def
          sample_low_vol_cb_fields)
qed

text \<open>
  With \<open>u = exp a\<close>, \<open>d = 1 / u\<close> and both \<open>r dt\<close> and \<open>cs dt\<close> above \<open>a\<close>, the
  up-probability exceeds 1 and the rolled-back value of the root is at least 100.
\<close>

lemma crr_hold_bound:
  assumes "0 < a" and "a < r * dt" and "a \<le> cs * dt"
  shows "100 \<le> (1 - up_prob r dt (exp a) (1 / exp a)) * 100 * exp (- (r + cs) * dt)
               + up_prob r dt (exp a) (1 / exp a) * (100 * exp a) * exp (- r * dt)"
proof -
  let ?u = "exp a" and ?d = "1 / exp a" and ?x = "exp (r * dt)" and ?k = "exp (- (cs * dt))"
  let ?q = "up_prob r dt ?u ?d"
  have d: "?d = exp (- a)"
    by (simp add: exp_minus inverse_eq_divide)
  have gap: "0 < ?u - ?d"
    using assms(1) unfolding d by simp
  have q1: "1 < ?q"
    using assms(1,2) by (rule crr_up_prob_above_one)
  have "?q * (?u - ?d) = ?x - ?d"
    using gap by (simp add: up_prob_def)
  then have mean: "(1 - ?q) * ?d + ?q * ?u = ?x"
    by (simp add: algebra_simps)
  have "?k \<le> ?d"
    using assms(3) unfolding d by simp
  with q1 have "(1 - ?q) * ?d \<le> (1 - ?q) * ?k"
    by (intro mult_left_mono_neg) simp_all
  with mean have main: "?x \<le> (1 - ?q) * ?k + ?q * ?u"
    by linarith
  have split: "exp (- (r + cs) * dt) = exp (- (r * dt)) * ?k"
    by (simp add: exp_add [symmetric] algebra_simps)
  have inv: "exp (- (r * dt)) * ?x = 1"
    by (simp add: exp_add [symmetric])
  have "100 = 100 * (exp (- (r * dt)) * ?x)"
    by (simp add: inv)
  also have "\<dots> \<le> 100 * (exp (- (r * dt)) * ((1 - ?q) * ?k + ?q * ?u))"
    using main by (intro mult_left_mono) simp_all
  also have "\<dots> = (1 - ?q) * 100 * exp (- (r + cs) * dt) + ?q * (100 * ?u) * exp (- r * dt)"
    unfolding split by (simp add: algebra_simps)
  finally show ?thesis .
qed

text \<open>
  C2 as stated fails. For the low-volatility bond every input is positive, yet the rate
  over one step exceeds the log of the up factor, the up-probability is above 1, and the
  debt leg at the root, which the result reports as \<open>tf_debt_component\<close>, is negative.
\<close>

theorem negative_debt_leg_counterexample:
  "1 < up_prob (engine_rf_t sample_low_vol_cb ! 0) (engine_dt sample_low_vol_cb)
         (engine_u sample_low_vol_cb) (engine_d sample_low_vol_cb)
   \<and> D_leg (engine_tf_root sample_low_vol_cb) < 0
   \<and> tf_debt_component (runPricingEngine sample_low_vol_cb) < 0"
proof -
  let ?a = "(1 / 200) * sqrt (7 / 365) :: real"
  let ?q = "up_prob (1 / 20) (7 / 365) (exp ?a) (1 / exp ?a)"
  note a = low_vol_step(1) and ab = low_vol_step(2)
  have d1: "1 / exp ?a < 1" and u1: "1 < exp ?a"
    using a by simp_all
  have q1: "1 < ?q"
    using a ab by (rule crr_up_prob_above_one)
  have hold: "100 \<le> (1 - ?q) * 100 * exp (- (1 / 20 + 1 / 20) * (7 / 365))
      + ?q * (100 * exp ?a) * exp (- (1 / 20) * (7 / 365))"
    using ab by (intro crr_hold_bound [OF a]) simp_all
  have root: "D_leg (engine_tf_root sample_low_vol_cb)
      = (1 - ?q) * 100 * exp (- (1 / 20 + 1 / 20) * (7 / 365))"
    unfolding engine_tf_root_def sample_low_vol_cb_engine
    using d1 u1 hold by (rule low_vol_cb_root)
  have "(1 - ?q) * 100 * exp (- (1 / 20 + 1 / 20) * (7 / 365)) < 0"
    using q1 by (intro mult_neg_pos) simp_all
  with root have neg: "D_leg (engine_tf_root sample_low_vol_cb) < 0"
    by simp
  have "security_type sample_low_vol_cb \<noteq> ESO"
    by (simp add: sample_low_vol_cb_def)
  then have "tf_debt_component (runPricingEngine sample_low_vol_cb)
      = D_leg (engine_tf_root sample_low_vol_cb)"
    by (rule engine_components(1))
  with neg q1 show ?thesis
    by (simp add: sample_low_vol_cb_engine)
qed

text \<open>
  The lower bound on the up-probability is needed for the ESO as well: with a negative
  rate whose size over one step exceeds the log of the up factor, the up-probability is
  negative, and so is the option leg at the root of the at-the-money option.
\<close>

lemma eso_row_node:
  assumes "t < N" and "i \<le> t"
  shows "eso_row security time_grid rf_t dt u d N t ! i
     = eso_node security time_grid rf_t dt u d t
         (eso_row security time_grid rf_t dt u d N (t + 1)) i"
proof -
  from assms(1) have "N - t = Suc (N - (t + 1))" and "N - Suc (N - (t + 1)) = t"
    by simp_all
  with assms(2) show ?thesis
    by (simp add: eso_row_def eso_step_def del: upt_Suc)
qed

lemma crr_up_prob_below_zero:
  assumes "0 < a" and "r * dt < - a"
  shows "up_prob r dt (exp a) (1 / exp a) < 0"
proof -
  have d: "1 / exp a = exp (- a)"
    by (simp add: exp_minus inverse_eq_divide)
  from assms(1) have gap: "0 < exp a - exp (- a)"
    by simp
  from assms(2) have "exp (r * dt) - exp (- a) < 0"
    by simp
  with gap show ?thesis
    unfolding up_prob_def d by (simp add: divide_neg_pos)
qed

lemma sample_negative_rate_eso_engine:
  "engine_grid sample_negative_rate_eso =
     [\<lparr>step = 0, date = 1704067200000, dateStr = 1704067200000, t_years = 0\<rparr>,
      \<lparr>step = 1, date = 1704672000000, dateStr = 1704672000000, t_years = 7 / 365\<rparr>]"
  "engine_N sample_negative_rate_eso = 1"
  "engine_dt sample_negative_rate_eso = 7 / 365"
  "engine_u sample_negative_rate_eso = exp ((1 / 200) * sqrt (7 / 365))"
  "engine_d sample_negative_rate_eso = 1 / exp ((1 / 200) * sqrt (7 / 365))"
  "engine_rf_t sample_negative_rate_eso = [- (1 / 20)]"
proof -
  have fields: "valuation_date sample_negative_rate_eso = 1704067200000"
    "maturity_date sample_negative_rate_eso = 1704672000000"
    "volatility sample_negative_rate_eso = 1 / 200"
    "stepwise_risk_free_rates sample_negative_rate_eso = None"
    "risk_free_rate sample_negative_rate_eso = - (1 / 20)"
    by (simp_all add: sample_negative_rate_eso_def sample_low_vol_cb_def)
  show grid: "engine_grid sample_negative_rate_eso =
     [\<lparr>step = 0, date = 1704067200000, dateStr = 1704067200000, t_years = 0\<rparr>,
      \<lparr>step = 1, date = 1704672000000, dateStr = 1704672000000, t_years = 7 / 365\<rparr>]"
    by (simp add: engine_grid_def fields one_week_grid)
  show N: "engine_N sample_negative_rate_eso = 1"
    by (simp add: engine_N_def grid)
  show dt: "engine_dt sample_negative_rate_eso = 7 / 365"
    by (simp add: engine_dt_def N) (simp add: grid)
  show u: "engine_u sample_negative_rate_eso = exp ((1 / 200) * sqrt (7 / 365))"
    by (simp add: engine_u_def dt fields)
  show "engine_d sample_negative_rate_eso = 1 / exp ((1 / 200) * sqrt (7 / 365))"
    by (simp only: engine_d_def u)
  show "engine_rf_t sample_negative_rate_eso = [- (1 / 20)]"
    by (simp add: engine_rf_t_def N stepwise_or_flat_def fields)
qed

lemma sample_negative_rate_eso_fields:
  "security_type sample_negative_rate_eso = ESO"
  "share_price_current sample_negative_rate_eso = 100"
  "strike_price sample_negative_rate_eso = Some 100"
  "vesting_end_date sample_negative_rate_eso = None"
  "maturity_date sample_negative_rate_eso = 1704672000000"
  "employee_exit_rate sample_negative_rate_eso = None"
  by (simp_all add: sample_negative_rate_eso_def sample_low_vol_cb_def)

lemma negative_rate_eso_root:
  assumes "d < 1" and "1 < u"
  shows "eso_E (eso_row sample_negative_rate_eso (engine_grid sample_negative_rate_eso)
                  [r] dt u d 1 0 ! 0)
     = up_prob r dt u d * (100 * u - 100) * exp (- r * dt)"
proof -
  let ?grid = "engine_grid sample_negative_rate_eso"
  let ?next = "[\<lparr>eso_E = 0, eso_flag = ''MATURITY_LAPSE''\<rparr>,
                \<lparr>eso_E = 100 * u - 100, eso_flag = ''MATURITY_EXERCISE''\<rparr>]"
  have "eso_row sample_negative_rate_eso ?grid [r] dt u d 1 0 ! 0
      = eso_node sample_negative_rate_eso ?grid [r] dt u d 0
          (eso_row sample_negative_rate_eso ?grid [r] dt u d 1 (0 + 1)) 0"
    by (rule eso_row_node) simp_all
  also have "eso_row sample_negative_rate_eso ?grid [r] dt u d 1 (0 + 1) = ?next"
    using assms
    by (simp add: eso_row_def eso_terminal_def steps_upto_one eso_terminal_node_def Let_def
          share_price_def or_default_def sample_negative_rate_eso_fields)
  finally have node: "eso_row sample_negative_rate_eso ?grid [r] dt u d 1 0 ! 0
      = eso_node sample_negative_rate_eso ?grid [r] dt u d 0 ?next 0" .
  show ?thesis
    unfolding node
    by (simp add: eso_node_def Let_def or_default_def sample_negative_rate_eso_fields
          sample_negative_rate_eso_engine)
qed

lemma calculateESO_equity:
  "tf_equity_component (calculateESO security time_grid rf_t dt u d N)
     = eso_E (eso_row security time_grid rf_t dt u d N 0 ! 0)"
  by (simp add: calculateESO_def Let_def)

lemma negative_rate_eso_leg:
  "up_prob (engine_rf_t sample_negative_rate_eso ! 0) (engine_dt sample_negative_rate_eso)
      (engine_u sample_negative_rate_eso) (engine_d sample_negative_rate_eso) < 0
   \<and> tf_equity_component (runPricingEngine sample_negative_rate_eso) < 0"
proof -
  let ?a = "(1 / 200) * sqrt (7 / 365) :: real"
  let ?q = "up_prob (- (1 / 20)) (7 / 365) (exp ?a) (1 / exp ?a)"
  note a = low_vol_step(1) and ab = low_vol_step(2)
  have d1: "1 / exp ?a < 1" and u1: "1 < exp ?a"
    using a by simp_all
  have "- (1 / 20) * (7 / 365) < - ?a"
    using ab by simp
  with a have q0: "?q < 0"
    by (rule crr_up_prob_below_zero)
  have "tf_equity_component (runPricingEngine sample_negative_rate_eso)
      = eso_E (eso_row sample_negative_rate_eso (engine_grid sample_negative_rate_eso)
                 [- (1 / 20)] (7 / 365) (exp ?a) (1 / exp ?a) 1 0 ! 0)"
    by (simp only: runPricingEngine_dispatch sample_negative_rate_eso_fields(1) refl if_True
          calculateESO_equity sample_negative_rate_eso_engine)
  also have "\<dots> = ?q * (100 * exp ?a - 100) * exp (- (- (1 / 20)) * (7 / 365))"
    using d1 u1 by (rule negative_rate_eso_root)
  also have "\<dots> < 0"
    using q0 u1 by (intro mult_neg_pos) simp_all
  finally show ?thesis
    using q0 by (simp add: sample_negative_rate_eso_engine)
qed

subsection \<open>Rounding error of a double\<close>








subsection \<open>Deal totals\<close>







lemma to_double_zero [simp]: "to_double 0 = 0"
  by (simp add: to_double_def)

lemma round_ties_even_numeral [simp]: "round_ties_even (numeral k) = numeral k"
  by (simp add: round_ties_even_def)

















end
